theory Spec2Isabelle
  imports Complex_Main "HOL-Library.Sublist" "HOL-Library.AList"
begin

section \<open>String operations of the source language\<close>

text \<open>
  Texts are modelled as \<open>string\<close> (lists of 8-bit characters).  The helpers below embed
  the Python string operations the program uses: \<open>sub in text\<close>, \<open>text.lower()\<close>,
  \<open>text.split("_")[0]\<close>, \<open>text[:n]\<close> and \<open>text.replace(old, new)\<close>.
\<close>

text \<open>\<open>sub in text\<close>: \<open>sub\<close> occurs as a contiguous block of \<open>text\<close>.\<close>

primrec contains :: "string \<Rightarrow> string \<Rightarrow> bool" where
  "contains sub [] = (sub = [])"
| "contains sub (c # cs) = (prefix sub (c # cs) \<or> contains sub cs)"

text \<open>\<open>text.lower()\<close> on the ASCII range: the letters A to Z are moved to a to z.\<close>

definition lower_char :: "char \<Rightarrow> char" where
  "lower_char c =
     (case map_of (zip ''ABCDEFGHIJKLMNOPQRSTUVWXYZ'' ''abcdefghijklmnopqrstuvwxyz'') c of
        Some d \<Rightarrow> d
      | None \<Rightarrow> c)"

definition lower :: "string \<Rightarrow> string" where
  "lower s = map lower_char s"

text \<open>\<open>platform.split("_")[0]\<close>: the part of the text before the first underscore.\<close>

definition platform_key :: "string \<Rightarrow> string" where
  "platform_key platform = takeWhile (\<lambda>c. c \<noteq> CHR ''_'') platform"

text \<open>\<open>text.replace(old, new)\<close>: every occurrence of \<open>old\<close>, found from the left and not
  overlapping, becomes \<open>new\<close>; for an empty \<open>old\<close>, \<open>new\<close> is put before every character
  and at the end.\<close>

fun replace_from :: "string \<Rightarrow> string \<Rightarrow> string \<Rightarrow> string" where
  "replace_from old new [] = []"
| "replace_from old new (c # cs) =
     (if prefix old (c # cs) then new @ replace_from old new (drop (length old - 1) cs)
      else c # replace_from old new cs)"

definition replace :: "string \<Rightarrow> string \<Rightarrow> string \<Rightarrow> string" where
  "replace old new text =
     (if old = [] then concat (map (\<lambda>c. new @ [c]) text) @ new else replace_from old new text)"

text \<open>\<open>sep.join(parts)\<close>.\<close>

fun join :: "string \<Rightarrow> string list \<Rightarrow> string" where
  "join sep [] = []"
| "join sep [x] = x"
| "join sep (x # y # ys) = x @ sep @ join sep (y # ys)"

text \<open>The decimal rendering of a number inside an f-string.\<close>

fun show_nat_fuel :: "nat \<Rightarrow> nat \<Rightarrow> string" where
  "show_nat_fuel 0 n = []"
| "show_nat_fuel (Suc k) n =
     (if n < 10 then [''0123456789'' ! n]
      else show_nat_fuel k (n div 10) @ [''0123456789'' ! (n mod 10)])"

definition show_nat :: "nat \<Rightarrow> string" where
  "show_nat n = show_nat_fuel (Suc n) n"

text \<open>Dictionary lookup with a default, \<open>d.get(key, default)\<close>, on an optional field.\<close>

definition get_or :: "'a \<Rightarrow> 'a option \<Rightarrow> 'a" where
  "get_or d x = (case x of None \<Rightarrow> d | Some v \<Rightarrow> v)"

text \<open>\<open>int(x)\<close> on a number: truncation towards zero.\<close>

definition py_int :: "rat \<Rightarrow> int" where
  "py_int q = (if 0 \<le> q then \<lfloor>q\<rfloor> else \<lceil>q\<rceil>)"

section \<open>Data model\<close>

text \<open>Exceptions of the source that the modelled code can raise.\<close>

datatype error = KeyError string | TypeError string | AttributeError string | ProviderError string

text \<open>
  The content package built by the creative agent is a nested dictionary.  A key that may
  be missing is an optional field; the empty dictionary \<open>{}\<close> is the record whose fields
  are all \<open>None\<close>.  A content angle stays a dictionary (an association list), because the
  code tests it for emptiness.
\<close>

datatype pyval = PStr string | PList "string list"

type_synonym content_angle = "(string \<times> pyval) list"

record caption = caption_text :: "string option"

record video_script =
  script_title :: "string option"
  script_hook :: "string option"
  script_scenes :: "string list"

record image_prompts = primary_prompt :: "string option"

record cta =
  cta_variations :: "(string \<times> string) list option"
  cta_recommended :: "string option"

record content =
  content_caption :: "caption option"
  content_video_script :: "video_script option"
  content_image_prompts :: "image_prompts option"
  content_cta :: "cta option"

record content_package =
  pkg_content_angle :: "content_angle option"
  pkg_content :: "content option"

definition empty_content :: content where
  "empty_content = \<lparr>content_caption = None, content_video_script = None,
     content_image_prompts = None, content_cta = None\<rparr>"

definition empty_package :: content_package where
  "empty_package = \<lparr>pkg_content_angle = None, pkg_content = None\<rparr>"

record webapp_data =
  wa_id :: "string option"
  wa_name :: "string option"
  wa_category :: "string option"

record research_results =
  research_date :: "string option"
  trending_topics :: "string option list"
  trending_hashtags :: "string list"
  trending_categories :: "string list"
  content_angles :: "content_angle list"

record ViralScoreResult =
  overall :: int
  hook_strength :: int
  emotional_impact :: int
  shareability :: int
  timing_score :: int
  uniqueness :: int
  trend_alignment :: int
  viral_probability :: int
  estimated_reach :: int
  positive_factors :: "string list"
  negative_factors :: "string list"
  recommendations :: "string list"

section \<open>Scoring engine (OptimizerAgent)\<close>

text \<open>
  The viral patterns of \<open>_score_hook\<close> are regular expressions without operators, except
  the first, \<open>wait (until|for)\<close>; each pattern is given as the list of its alternatives
  and \<open>re.search\<close> is containment of one of them.
\<close>

definition viral_patterns :: "string list list" where
  "viral_patterns =
     [[''wait until'', ''wait for''], [''this changes everything''], [''can't believe''],
      [''stop doing''], [''secret''], [''nobody''], [''pov:''], [''hot take''],
      [''unpopular opinion'']]"

definition re_search :: "string list \<Rightarrow> string \<Rightarrow> bool" where
  "re_search pattern text = list_ex (\<lambda>alt. contains alt text) pattern"

definition score_hook :: "string \<Rightarrow> string \<Rightarrow> int" where
  "score_hook hook platform =
     (let hook_lower = lower hook;
          score = foldl (\<lambda>score pattern. if re_search pattern hook_lower then score + 10 else score)
                    50 viral_patterns;
          score = (if length hook < 10 then score - 10
                   else if length hook > 100 then score - 5
                   else score + 5);
          score = (if platform = ''tiktok'' \<and>
                      list_ex (\<lambda>word. contains word hook_lower) [''pov'', ''tell me'', ''the way'']
                   then score + 10 else score)
      in min 100 (max 0 score))"

definition positive_triggers :: "string list" where
  "positive_triggers = [''amazing'', ''incredible'', ''love'', ''perfect'', ''game changer'', ''transform'']"

definition negative_triggers :: "string list" where
  "negative_triggers = [''struggle'', ''problem'', ''frustrated'', ''waste'', ''difficult'']"

definition urgency_triggers :: "string list" where
  "urgency_triggers = [''now'', ''today'', ''limited'', ''urgent'', ''don't miss'']"

text \<open>One \<open>for trigger in triggers: if trigger in text_lower: score += bonus\<close> loop.\<close>

definition add_triggers :: "int \<Rightarrow> string list \<Rightarrow> string \<Rightarrow> int \<Rightarrow> int" where
  "add_triggers bonus triggers text_lower score =
     foldl (\<lambda>score trigger. if contains trigger text_lower then score + bonus else score)
       score triggers"

definition score_emotional_impact :: "string \<Rightarrow> int" where
  "score_emotional_impact text =
     (let text_lower = lower text;
          score = add_triggers 5 positive_triggers text_lower 50;
          score = add_triggers 3 negative_triggers text_lower score;
          score = add_triggers 4 urgency_triggers text_lower score
      in min 100 score)"

definition score_shareability :: "content_package \<Rightarrow> string \<Rightarrow> int" where
  "score_shareability content_package platform =
     (let content = get_or empty_content (pkg_content content_package);
          score = 50;
          score = (if content_cta content \<noteq> None then score + 10 else score);
          score = (case content_caption content of
                     Some c \<Rightarrow> if length (get_or [] (caption_text c)) > 50 then score + 5 else score
                   | None \<Rightarrow> score);
          score = (if content_image_prompts content \<noteq> None \<or> content_video_script content \<noteq> None
                   then score + 15 else score);
          score = (if platform \<in> set [''tiktok'', ''instagram''] \<and> content_video_script content \<noteq> None
                   then score + 10 else score)
      in min 100 score)"

definition optimal_hours :: "(string \<times> int list) list" where
  "optimal_hours =
     [(''youtube'', [12, 15, 18]), (''tiktok'', [7, 12, 19]), (''instagram'', [11, 14, 19]),
      (''facebook'', [9, 13, 15]), (''twitter'', [8, 12, 17]), (''linkedin'', [8, 12, 17])]"

text \<open>The wall-clock hour read by \<open>_score_timing\<close> is the parameter \<open>hour\<close>.\<close>

definition score_timing :: "int \<Rightarrow> string \<Rightarrow> int" where
  "score_timing hour platform =
     (let optimal = get_or [12] (map_of optimal_hours (platform_key platform))
      in if hour \<in> set optimal then 90
         else if list_ex (\<lambda>h. \<bar>hour - h\<bar> \<le> 1) optimal then 75
         else 60)"

definition unique_formats :: "string list" where
  "unique_formats = [''pov'', ''transformation'', ''day_in_life'', ''comparison'']"

text \<open>
  \<open>_score_uniqueness\<close> looks the product name up in \<open>str(content)\<close>; the rendering of a
  dictionary as text is the parameter \<open>render\<close>.  A missing name makes the \<open>in\<close> test
  raise a \<open>TypeError\<close>.
\<close>

definition score_uniqueness ::
  "(content \<Rightarrow> string) \<Rightarrow> content_package \<Rightarrow> webapp_data \<Rightarrow> error + int" where
  "score_uniqueness render content_package webapp =
     (let score = 60;
          content = get_or empty_content (pkg_content content_package);
          angle = get_or [] (pkg_content_angle content_package);
          score = (if angle \<noteq> [] then
                     (case map_of angle ''format'' of
                        Some (PStr f) \<Rightarrow> if f \<in> set unique_formats then score + 15 else score
                      | _ \<Rightarrow> score)
                   else score)
      in case wa_name webapp of
           None \<Rightarrow> Inl (TypeError ''requires string as left operand, not NoneType'')
         | Some name \<Rightarrow>
             Inr (min 100 (if contains name (render content) then score + 10 else score)))"

definition score_trend_alignment :: "research_results \<Rightarrow> webapp_data \<Rightarrow> int" where
  "score_trend_alignment trend_data webapp =
     (let score = 50;
          category = get_or ''SaaS'' (wa_category webapp);
          score = (if category \<in> set (trending_categories trend_data) then score + 25 else score);
          score = (if category \<in> set [''SaaS'', ''Developer Tools'', ''AI''] then score + 15 else score)
      in min 100 score)"

definition base_reach :: "(string \<times> int) list" where
  "base_reach =
     [(''youtube'', 10000), (''tiktok'', 50000), (''instagram'', 15000), (''facebook'', 8000),
      (''twitter'', 5000), (''linkedin'', 3000)]"

definition estimate_reach :: "int \<Rightarrow> string \<Rightarrow> int" where
  "estimate_reach viral_score platform =
     (let base = get_or 10000 (map_of base_reach (platform_key platform));
          multiplier = (of_int viral_score :: rat) / 50
      in py_int (of_int base * multiplier))"

definition generate_feedback ::
  "int \<Rightarrow> int \<Rightarrow> int \<Rightarrow> int \<Rightarrow> int \<Rightarrow> int \<Rightarrow> string list \<times> string list \<times> string list" where
  "generate_feedback hook emotional shareable timing unique trend =
     (let positive = []; negative = []; recs = [];
          (positive, negative, recs) =
             (if hook \<ge> 70
              then (positive @ [''Strong hook that grabs attention immediately''], negative, recs)
              else (positive, negative @ [''Hook could be more compelling''],
                    recs @ [''Start with a question, bold statement, or curiosity gap'']));
          (positive, recs) =
             (if emotional \<ge> 70
              then (positive @ [''Good emotional resonance with audience''], recs)
              else (positive, recs @ [''Add more emotional language and relatable scenarios'']));
          (positive, recs) =
             (if shareable \<ge> 70
              then (positive @ [''High shareability factor''], recs)
              else (positive, recs @ [''Include a clear call-to-action and value proposition'']));
          (positive, recs) =
             (if timing \<ge> 80
              then (positive @ [''Optimal posting time''], recs)
              else (positive, recs @ [''Consider posting during peak engagement hours'']));
          (positive, recs) =
             (if unique \<ge> 70
              then (positive @ [''Unique angle that stands out''], recs)
              else (positive, recs @ [''Try a different content format or angle'']));
          (positive, recs) =
             (if trend \<ge> 70
              then (positive @ [''Well-aligned with current trends''], recs)
              else (positive, recs @ [''Incorporate trending topics or hashtags'']))
      in (positive, negative, recs))"

text \<open>
  The weighted sum of \<open>_calculate_viral_score\<close> is taken with the decimal weights as exact
  fractions.
\<close>

definition calculate_viral_score ::
  "(content \<Rightarrow> string) \<Rightarrow> int \<Rightarrow> research_results \<Rightarrow> content_package \<Rightarrow> string \<Rightarrow> webapp_data
     \<Rightarrow> error + ViralScoreResult" where
  "calculate_viral_score render hour trend_data content_package platform webapp =
     (let content = get_or empty_content (pkg_content content_package);
          hook = (case content_video_script content of
                    None \<Rightarrow> [] | Some vs \<Rightarrow> get_or [] (script_hook vs));
          text = (case content_caption content of
                    None \<Rightarrow> [] | Some c \<Rightarrow> get_or [] (caption_text c));
          hook_s = score_hook hook platform;
          emotional = score_emotional_impact text;
          shareable = score_shareability content_package platform;
          timing = score_timing hour platform
      in case score_uniqueness render content_package webapp of
           Inl e \<Rightarrow> Inl e
         | Inr unique \<Rightarrow>
             (let trend = score_trend_alignment trend_data webapp;
                  total = py_int (of_int hook_s * (25 / 100) + of_int emotional * (20 / 100) +
                                  of_int shareable * (20 / 100) + of_int timing * (10 / 100) +
                                  of_int unique * (15 / 100) + of_int trend * (10 / 100));
                  probability = min 100 (py_int (of_int total * (85 / 100)));
                  reach = estimate_reach total platform;
                  (positive, negative, recs) =
                     generate_feedback hook_s emotional shareable timing unique trend
              in Inr \<lparr>overall = total, hook_strength = hook_s, emotional_impact = emotional,
                      shareability = shareable, timing_score = timing, uniqueness = unique,
                      trend_alignment = trend, viral_probability = probability,
                      estimated_reach = reach, positive_factors = positive,
                      negative_factors = negative, recommendations = recs\<rparr>))"


text \<open>
  \<open>optimize_content\<close> also rewrites the caption and adds emojis chosen at random; the
  later stages read neither, so the optimized package keeps the fields they read: the
  selected hashtags (\<open>optimizations.hashtags.hashtags\<close>), the hook variations and the
  viral score.  The empty dictionary is the record with every field \<open>None\<close>.
\<close>

record optimized =
  opt_hashtags :: "string list option"
  opt_hook_variations :: "string list option"
  opt_viral_score :: "ViralScoreResult option"

definition empty_optimized :: optimized where
  "empty_optimized = \<lparr>opt_hashtags = None, opt_hook_variations = None, opt_viral_score = None\<rparr>"

definition category_hashtags :: "(string \<times> string list) list" where
  "category_hashtags =
     [(''SaaS'', [''#SaaS'', ''#Productivity'', ''#Startup'', ''#TechTools'', ''#WorkSmarter'',
                  ''#AITools'', ''#RemoteWork'']),
      (''Developer'', [''#DevTools'', ''#Programming'', ''#Coding'', ''#SoftwareEngineering'',
                       ''#OpenSource'', ''#WebDev'']),
      (''Productivity'', [''#Productivity'', ''#TimeManagement'', ''#Efficiency'',
                          ''#WorkLifeBalance'', ''#Focus'', ''#Success'']),
      (''AI'', [''#AI'', ''#MachineLearning'', ''#ArtificialIntelligence'', ''#ChatGPT'',
                ''#Automation'', ''#FutureOfWork'']),
      (''Marketing'', [''#Marketing'', ''#DigitalMarketing'', ''#ContentMarketing'',
                       ''#GrowthHacking'', ''#SocialMedia''])]"

definition hashtag_optimal :: "(string \<times> nat) list" where
  "hashtag_optimal =
     [(''instagram'', 8), (''tiktok'', 4), (''twitter'', 1), (''linkedin'', 4), (''facebook'', 3),
      (''youtube'', 4)]"

definition optimize_hashtags :: "research_results \<Rightarrow> webapp_data \<Rightarrow> string \<Rightarrow> string list" where
  "optimize_hashtags trend_data webapp platform =
     (let category = get_or ''SaaS'' (wa_category webapp);
          name = replace '' '' [] (get_or ''Product'' (wa_name webapp));
          optimal = get_or 4 (map_of hashtag_optimal (platform_key platform));
          by_category = (case map_of category_hashtags category of
                           Some hs \<Rightarrow> hs
                         | None \<Rightarrow> get_or [] (map_of category_hashtags ''SaaS''));
          product_hashtag = ''#'' @ name;
          all_hashtags = [product_hashtag] @ by_category @ trending_hashtags trend_data
      in take optimal all_hashtags)"

definition viral_hooks :: "(string \<times> string list) list" where
  "viral_hooks =
     [(''youtube'', [''Wait until you see this...'', ''This changes EVERYTHING'',
                     ''I can't believe this actually works'', ''Stop doing this wrong'',
                     ''The secret nobody talks about'']),
      (''tiktok'', [''POV: You finally found the answer'', ''This is your sign to...'',
                    ''Tell me you {topic} without telling me you {topic}'', ''The way I just...'',
                    ''Nobody asked but...'']),
      (''instagram'', [''Save this for later!'', ''Which one are you?'',
                       ''Tag someone who needs this'', ''This is your reminder to...'',
                       ''The secret to...'']),
      (''twitter'', [''Hot take:'', ''Unpopular opinion:'', ''What if I told you...'',
                     ''The real reason...'', ''Stop believing this myth:'']),
      (''linkedin'', [''I made a $X mistake so you don't have to'',
                      ''After X years in {industry}, here's what I learned'',
                      ''The biggest misconception about...'', ''Why most people fail at...'',
                      ''The framework that changed everything''])]"

definition generate_hook_variations :: "string \<Rightarrow> webapp_data \<Rightarrow> string list" where
  "generate_hook_variations platform webapp =
     (let category = get_or ''SaaS'' (wa_category webapp);
          platform_hooks = (case map_of viral_hooks (platform_key platform) of
                              Some hs \<Rightarrow> hs
                            | None \<Rightarrow> get_or [] (map_of viral_hooks ''youtube''))
      in map (\<lambda>hook. replace ''{topic}'' (lower category) hook) (take 3 platform_hooks))"

text \<open>
  \<open>optimize_content\<close> raises a \<open>KeyError\<close> when the package has a caption without its
  text (the emoji step indexes it), and the \<open>TypeError\<close> of \<open>_score_uniqueness\<close>.
\<close>

definition optimize_content ::
  "(content \<Rightarrow> string) \<Rightarrow> int \<Rightarrow> research_results \<Rightarrow> content_package \<Rightarrow> string \<Rightarrow> webapp_data
     \<Rightarrow> error + optimized" where
  "optimize_content render hour trend_data content_package platform webapp =
     (let content = get_or empty_content (pkg_content content_package);
          hashtags = optimize_hashtags trend_data webapp platform
      in if (case content_caption content of Some c \<Rightarrow> caption_text c = None | None \<Rightarrow> False)
         then Inl (KeyError ''text'')
         else case calculate_viral_score render hour trend_data content_package platform webapp of
                Inl e \<Rightarrow> Inl e
              | Inr score \<Rightarrow>
                  Inr \<lparr>opt_hashtags = Some hashtags,
                       opt_hook_variations = Some (generate_hook_variations platform webapp),
                       opt_viral_score = Some score\<rparr>)"

section \<open>Provider registry and media router (MediaAgentV2)\<close>

datatype MediaType = IMAGE | VIDEO | AUDIO

datatype ProviderPriority = FREE | CHEAP | PREMIUM

record MediaAsset =
  asset_id :: string
  asset_type :: MediaType
  asset_url :: "string option"
  asset_metadata :: "(string \<times> string) list"
  asset_status :: string
  asset_provider :: string
  asset_cost :: rat

text \<open>
  One entry of a provider table: the credential found for it, its priority tier and its
  declared cost (per image, per video or per character).
\<close>

record provider_config =
  pc_key :: "string option"
  pc_priority :: ProviderPriority
  pc_cost :: rat

record MediaAgentV2 =
  user_plan :: string
  providers :: "(string \<times> provider_config) list"
  video_providers :: "(string \<times> provider_config) list"
  audio_providers :: "(string \<times> provider_config) list"

text \<open>
  \<open>_get_key\<close>: the key supplied by the user when it is present and not empty, else the
  process environment (\<open>os.getenv\<close>, the map \<open>environ\<close>).
\<close>

definition get_key :: "(string \<rightharpoonup> string) \<Rightarrow> (string \<rightharpoonup> string) \<Rightarrow> string \<Rightarrow> string option" where
  "get_key user_api_keys environ key_name =
     (case user_api_keys key_name of
        Some v \<Rightarrow> if v \<noteq> [] then Some v else environ key_name
      | None \<Rightarrow> environ key_name)"

text \<open>The provider tables of \<open>__init__\<close>, in the order the dictionaries are written.\<close>

definition init_agent :: "(string \<rightharpoonup> string) \<Rightarrow> (string \<rightharpoonup> string) \<Rightarrow> string \<Rightarrow> MediaAgentV2" where
  "init_agent user_api_keys environ plan =
     (let key = get_key user_api_keys environ in
      \<lparr>user_plan = plan,
       providers =
         [(''huggingface'', \<lparr>pc_key = key ''HUGGINGFACE_TOKEN'', pc_priority = FREE, pc_cost = 0\<rparr>),
          (''leonardo'', \<lparr>pc_key = key ''LEONARDO_API_KEY'', pc_priority = PREMIUM, pc_cost = 3 / 100\<rparr>),
          (''openai'', \<lparr>pc_key = key ''OPENAI_API_KEY'', pc_priority = PREMIUM, pc_cost = 4 / 100\<rparr>),
          (''replicate'', \<lparr>pc_key = key ''REPLICATE_API_TOKEN'', pc_priority = CHEAP, pc_cost = 1 / 100\<rparr>),
          (''fal'', \<lparr>pc_key = key ''FAL_AI_KEY'', pc_priority = CHEAP, pc_cost = 2 / 100\<rparr>),
          (''siliconflow'', \<lparr>pc_key = key ''SILICONFLOW_API_KEY'', pc_priority = FREE, pc_cost = 0\<rparr>)],
       video_providers =
         [(''runway'', \<lparr>pc_key = key ''RUNWAY_API_KEY'', pc_priority = PREMIUM, pc_cost = 20 / 100\<rparr>),
          (''heygen'', \<lparr>pc_key = key ''HEYGEN_API_KEY'', pc_priority = PREMIUM, pc_cost = 30 / 100\<rparr>),
          (''replicate_video'', \<lparr>pc_key = key ''REPLICATE_API_TOKEN'', pc_priority = CHEAP, pc_cost = 5 / 100\<rparr>)],
       audio_providers =
         [(''elevenlabs'', \<lparr>pc_key = key ''ELEVENLABS_API_KEY'', pc_priority = PREMIUM, pc_cost = 1 / 10000\<rparr>),
          (''coqui'', \<lparr>pc_key = key ''COQUI_API_KEY'', pc_priority = FREE, pc_cost = 0\<rparr>),
          (''playht'', \<lparr>pc_key = key ''PLAYHT_API_KEY'', pc_priority = CHEAP, pc_cost = 5 / 100000\<rparr>)]\<rparr>)"

text \<open>Truth value of an optional text: \<open>None\<close> and the empty text are false.\<close>

definition truthy :: "string option \<Rightarrow> bool" where
  "truthy k = (case k of None \<Rightarrow> False | Some v \<Rightarrow> v \<noteq> [])"

definition priority_order :: "ProviderPriority \<Rightarrow> nat" where
  "priority_order p = (case p of FREE \<Rightarrow> 0 | CHEAP \<Rightarrow> 1 | PREMIUM \<Rightarrow> 2)"

text \<open>
  The sort key of \<open>_get_available_providers\<close>.  Every sorted name comes from the table, so
  the lookup finds it; the default 3 is the one of \<open>priority_order.get\<close>.
\<close>

definition sort_rank :: "(string \<times> provider_config) list \<Rightarrow> string \<Rightarrow> nat" where
  "sort_rank table x =
     (case map_of table x of Some config \<Rightarrow> priority_order (pc_priority config) | None \<Rightarrow> 3)"

text \<open>\<open>list.sort\<close> is stable, as \<open>sort_key\<close> is.\<close>

definition available_in ::
  "(string \<times> provider_config) list \<Rightarrow> ProviderPriority option \<Rightarrow> string list" where
  "available_in table priority =
     (let available =
            map fst (filter (\<lambda>(name, config). truthy (pc_key config) \<and>
                               (priority = None \<or> Some (pc_priority config) = priority)) table)
      in sort_key (sort_rank table) available)"

definition get_available_providers ::
  "MediaAgentV2 \<Rightarrow> string \<Rightarrow> ProviderPriority option \<Rightarrow> string list" where
  "get_available_providers agent media_type priority =
     (if media_type = ''image'' then available_in (providers agent) priority
      else if media_type = ''video'' then available_in (video_providers agent) priority
      else if media_type = ''audio'' then available_in (audio_providers agent) priority
      else [])"




text \<open>
  The calls to the providers' web services are the environment of the router: \<open>http name\<close>
  is the outcome of the request sent to provider \<open>name\<close>, either the locator of the
  generated asset or the exception the call ends with (a refused request, a timeout of the
  request or of the polling loop, a malformed payload).  The time stamp that names an asset
  is the parameter \<open>ts\<close>.  Of an asset's metadata the prompt and the note are kept.
\<close>

type_synonym http_env = "string \<Rightarrow> error + string"

definition provider_asset ::
  "(string \<times> provider_config) list \<Rightarrow> MediaType \<Rightarrow> http_env \<Rightarrow> string \<Rightarrow> string
     \<Rightarrow> error + MediaAsset option" where
  "provider_asset table kind http name prompt =
     (case map_of table name of
        None \<Rightarrow> Inl (KeyError name)
      | Some config \<Rightarrow>
          if \<not> truthy (pc_key config) then Inr None
          else case http name of
                 Inl e \<Rightarrow> Inl e
               | Inr url \<Rightarrow>
                   Inr (Some \<lparr>asset_id = [], asset_type = kind, asset_url = Some url,
                              asset_metadata = [(''prompt'', prompt)],
                              asset_status = ''completed'', asset_provider = name,
                              asset_cost = pc_cost config\<rparr>))"

text \<open>
  The \<open>for provider_name in providers\<close> loop: the first provider that returns an asset
  ends it; a provider that raises or returns nothing is passed over.
\<close>

fun try_providers :: "(string \<Rightarrow> error + MediaAsset option) \<Rightarrow> string list \<Rightarrow> MediaAsset option" where
  "try_providers call [] = None"
| "try_providers call (provider_name # rest) =
     (case call provider_name of
        Inr (Some result) \<Rightarrow> Some result
      | Inr None \<Rightarrow> try_providers call rest
      | Inl e \<Rightarrow> try_providers call rest)"

text \<open>
  Every provider of a candidate list fails: its call raises (a refused or timed-out
  request, a method that does not exist) or returns nothing.
\<close>

definition all_fail :: "(string \<Rightarrow> error + MediaAsset option) \<Rightarrow> string list \<Rightarrow> bool" where
  "all_fail call candidates =
     list_all (\<lambda>provider_name. case call provider_name of
                                  Inr (Some result) \<Rightarrow> False
                                | Inr None \<Rightarrow> True
                                | Inl e \<Rightarrow> True) candidates"

definition aspect_ratios :: "(string \<times> nat \<times> nat) list" where
  "aspect_ratios =
     [(''instagram'', (1024, 1024)), (''tiktok'', (1080, 1920)), (''youtube'', (1920, 1080)),
      (''twitter'', (1600, 900)), (''linkedin'', (1200, 627)), (''facebook'', (1200, 630))]"

definition image_placeholder :: "string \<Rightarrow> string \<Rightarrow> string \<Rightarrow> nat \<Rightarrow> nat \<Rightarrow> string \<Rightarrow> MediaAsset" where
  "image_placeholder ident prompt platform width height note =
     \<lparr>asset_id = ident, asset_type = IMAGE,
      asset_url = Some (''https://images.unsplash.com/photo-1551434678-e076c223a692?w='' @
                        show_nat width @ ''&h='' @ show_nat height @ ''&fit=crop''),
      asset_metadata = [(''prompt'', prompt), (''platform'', platform), (''note'', note)],
      asset_status = ''completed'', asset_provider = ''placeholder'', asset_cost = 0\<rparr>"

definition image_call :: "MediaAgentV2 \<Rightarrow> http_env \<Rightarrow> string \<Rightarrow> string \<Rightarrow> error + MediaAsset option" where
  "image_call agent http prompt provider_name =
     (if provider_name \<in> set [''huggingface'', ''leonardo'', ''openai'', ''replicate'', ''fal'',
                                ''siliconflow'']
      then provider_asset (providers agent) IMAGE http provider_name prompt
      else Inr None)"

definition generate_image ::
  "MediaAgentV2 \<Rightarrow> http_env \<Rightarrow> string \<Rightarrow> string \<Rightarrow> string \<Rightarrow> nat \<Rightarrow> nat \<Rightarrow> bool \<Rightarrow> MediaAsset" where
  "generate_image agent http ts prompt platform width height prefer_free =
     (let ident = ''img_'' @ ts;
          (width, height) = get_or (width, height) (map_of aspect_ratios (platform_key platform));
          priority = (if prefer_free \<and> user_plan agent = ''free'' then Some FREE else None);
          candidates = get_available_providers agent ''image'' priority
      in if candidates = []
         then image_placeholder ident prompt platform width height ''Placeholder - no API keys''
         else case try_providers (image_call agent http prompt) candidates of
                Some result \<Rightarrow> result\<lparr>asset_id := ident\<rparr>
              | None \<Rightarrow> image_placeholder ident prompt platform width height
                          ''Placeholder - all providers failed'')"

definition video_placeholder :: "string \<Rightarrow> string \<Rightarrow> string \<Rightarrow> MediaAsset" where
  "video_placeholder ident prompt note =
     \<lparr>asset_id = ident, asset_type = VIDEO,
      asset_url = Some (''https://assets.mixkit.co/videos/preview/'' @
                        ''mixkit-typing-on-a-laptop-in-a-coffee-shop-484-large.mp4''),
      asset_metadata = [(''prompt'', prompt), (''note'', note)],
      asset_status = ''completed'', asset_provider = ''placeholder'', asset_cost = 0\<rparr>"

text \<open>
  The class defines \<open>_generate_runway_video\<close> only: the calls for \<open>heygen\<close> and
  \<open>replicate_video\<close> name methods that do not exist and raise an \<open>AttributeError\<close>.
\<close>

definition video_call :: "MediaAgentV2 \<Rightarrow> http_env \<Rightarrow> string \<Rightarrow> string \<Rightarrow> error + MediaAsset option" where
  "video_call agent http prompt provider_name =
     (if provider_name = ''runway''
      then provider_asset (video_providers agent) VIDEO http provider_name prompt
      else if provider_name = ''heygen'' then Inl (AttributeError ''_generate_heygen_video'')
      else if provider_name = ''replicate_video''
      then Inl (AttributeError ''_generate_replicate_video'')
      else Inr None)"

definition generate_video :: "MediaAgentV2 \<Rightarrow> http_env \<Rightarrow> string \<Rightarrow> string \<Rightarrow> MediaAsset" where
  "generate_video agent http ts prompt =
     (let ident = ''vid_'' @ ts;
          candidates = get_available_providers agent ''video'' None
      in if candidates = []
         then video_placeholder ident prompt ''Placeholder - no API keys''
         else case try_providers (video_call agent http prompt) candidates of
                Some result \<Rightarrow> result\<lparr>asset_id := ident\<rparr>
              | None \<Rightarrow> video_placeholder ident prompt ''Placeholder - all providers failed'')"

definition audio_placeholder :: "string \<Rightarrow> string \<Rightarrow> string \<Rightarrow> MediaAsset" where
  "audio_placeholder ident text note =
     \<lparr>asset_id = ident, asset_type = AUDIO, asset_url = None,
      asset_metadata = [(''text'', take 100 text), (''note'', note)],
      asset_status = ''completed'', asset_provider = ''none'', asset_cost = 0\<rparr>"

text \<open>
  \<open>_generate_elevenlabs_audio\<close> charges the text by the character;
  \<open>_generate_coqui_audio\<close> and \<open>_generate_playht_audio\<close> return nothing.
\<close>

definition audio_call :: "MediaAgentV2 \<Rightarrow> http_env \<Rightarrow> string \<Rightarrow> string \<Rightarrow> error + MediaAsset option" where
  "audio_call agent http text provider_name =
     (if provider_name = ''elevenlabs'' then
        (case map_of (audio_providers agent) ''elevenlabs'' of
           None \<Rightarrow> Inl (KeyError ''elevenlabs'')
         | Some config \<Rightarrow>
             if \<not> truthy (pc_key config) then Inr None
             else case http ''elevenlabs'' of
                    Inl e \<Rightarrow> Inl e
                  | Inr url \<Rightarrow>
                      Inr (Some \<lparr>asset_id = [], asset_type = AUDIO, asset_url = Some url,
                                 asset_metadata = [(''text'', take 100 text)],
                                 asset_status = ''completed'', asset_provider = ''elevenlabs'',
                                 asset_cost = of_nat (length text) * pc_cost config\<rparr>))
      else Inr None)"

definition generate_voiceover :: "MediaAgentV2 \<Rightarrow> http_env \<Rightarrow> string \<Rightarrow> string \<Rightarrow> MediaAsset" where
  "generate_voiceover agent http ts text =
     (let ident = ''audio_'' @ ts;
          candidates = get_available_providers agent ''audio'' None
      in if candidates = []
         then audio_placeholder ident text ''No API keys available''
         else case try_providers (audio_call agent http text) candidates of
                Some result \<Rightarrow> result\<lparr>asset_id := ident\<rparr>
              | None \<Rightarrow> audio_placeholder ident text ''All providers failed'')"

text \<open>
  \<open>_extract_voiceover_text\<close>; \<open>script_scenes\<close> holds the audio line of each scene, empty
  for a scene without one.
\<close>

definition extract_voiceover_text :: "video_script \<Rightarrow> string" where
  "extract_voiceover_text script =
     (let voiceover_lines = filter (\<lambda>audio. audio \<noteq> [] \<and> length audio > 5) (script_scenes script)
      in if voiceover_lines \<noteq> [] then join '' '' voiceover_lines
         else get_or [] (script_hook script))"

text \<open>
  \<open>generate_content_media\<close> returns the assets by kind, in the order image, video, audio.
  The three generators return an asset on every path, so the branch that records a
  failed task is never taken.
\<close>

definition generate_content_media ::
  "MediaAgentV2 \<Rightarrow> http_env \<Rightarrow> string \<Rightarrow> content_package \<Rightarrow> string
     \<Rightarrow> error + (string \<times> MediaAsset) list" where
  "generate_content_media agent http ts content_package platform =
     (let content = get_or empty_content (pkg_content content_package);
          video_tasks =
            (case content_video_script content of
               None \<Rightarrow> []
             | Some script \<Rightarrow>
                 (let video_prompt = ''Short promotional video: '' @
                                     get_or ''product showcase'' (script_title script);
                      voiceover_text = extract_voiceover_text script
                  in [(''video'', generate_video agent http ts video_prompt)] @
                     (if voiceover_text \<noteq> []
                      then [(''audio'', generate_voiceover agent http ts voiceover_text)]
                      else [])))
      in case content_image_prompts content of
           None \<Rightarrow> Inr video_tasks
         | Some prompts \<Rightarrow>
             (case primary_prompt prompts of
                None \<Rightarrow> Inl (KeyError ''primary'')
              | Some image_prompt \<Rightarrow>
                  Inr ([(''image'', generate_image agent http ts image_prompt platform 1024 1024 True)]
                       @ video_tasks)))"

text \<open>\<open>min(xs, key=f)\<close> and \<open>max(xs, key=f)\<close> keep the first of several extremal elements.\<close>

fun py_min_from :: "('a \<Rightarrow> 'b::linorder) \<Rightarrow> 'a \<Rightarrow> 'a list \<Rightarrow> 'a" where
  "py_min_from key best [] = best"
| "py_min_from key best (x # xs) = py_min_from key (if key x < key best then x else best) xs"

fun py_max_from :: "('a \<Rightarrow> 'b::linorder) \<Rightarrow> 'a \<Rightarrow> 'a list \<Rightarrow> 'a" where
  "py_max_from key best [] = best"
| "py_max_from key best (x # xs) = py_max_from key (if key x > key best then x else best) xs"

record cost_breakdown =
  cost_image :: rat
  cost_video :: rat
  cost_audio :: rat
  cost_total :: rat

definition declared_cost :: "(string \<times> provider_config) list \<Rightarrow> string \<Rightarrow> rat" where
  "declared_cost table name = (case map_of table name of Some config \<Rightarrow> pc_cost config | None \<Rightarrow> 0)"

definition cheapest_cost :: "(string \<times> provider_config) list \<Rightarrow> string list \<Rightarrow> rat" where
  "cheapest_cost table candidates =
     (case candidates of
        [] \<Rightarrow> 0
      | p # ps \<Rightarrow> declared_cost table (py_min_from (declared_cost table) p ps))"

definition estimate_cost :: "MediaAgentV2 \<Rightarrow> content_package \<Rightarrow> cost_breakdown" where
  "estimate_cost agent content_package =
     (let content = get_or empty_content (pkg_content content_package);
          image = (if content_image_prompts content \<noteq> None
                   then cheapest_cost (providers agent) (get_available_providers agent ''image'' None)
                   else 0);
          video = (if content_video_script content \<noteq> None
                   then cheapest_cost (video_providers agent)
                          (get_available_providers agent ''video'' None)
                   else 0);
          audio = (case content_video_script content of
                     None \<Rightarrow> 0
                   | Some script \<Rightarrow>
                       (let text = extract_voiceover_text script in
                        case get_available_providers agent ''audio'' None of
                          [] \<Rightarrow> 0
                        | cheapest # others \<Rightarrow>
                            if text \<noteq> []
                            then of_nat (length text) * declared_cost (audio_providers agent) cheapest
                            else 0))
      in \<lparr>cost_image = image, cost_video = video, cost_audio = audio,
          cost_total = image + video + audio\<rparr>)"

section \<open>Variant generator and pipeline orchestrator (NightlyWorkflowV2)\<close>

datatype WorkflowStage = RESEARCH | CREATIVE | MEDIA | OPTIMIZE | AB_TEST | APPROVAL_QUEUE | COMPLETE

record variant =
  variant_id :: string
  variant_title :: string
  variant_caption :: string
  variant_hashtags :: "string list"
  variant_viral_score :: int
  variant_confidence :: rat
  variant_content_angle :: content_angle
  test_hypothesis :: string

definition package_caption_text :: "content_package \<Rightarrow> string" where
  "package_caption_text original_content =
     (case content_caption (get_or empty_content (pkg_content original_content)) of
        None \<Rightarrow> []
      | Some c \<Rightarrow> get_or [] (caption_text c))"

text \<open>
  \<open>_generate_ab_variants\<close>.  A video script that is present is a dictionary with entries,
  as the creative agent builds it, and counts as true.
\<close>

definition generate_ab_variants :: "string \<Rightarrow> content_package \<Rightarrow> optimized \<Rightarrow> variant list" where
  "generate_ab_variants platform original_content optimized_content =
     (let content = get_or empty_content (pkg_content original_content);
          variant_a =
            \<lparr>variant_id = ''A'',
             variant_title = take 50 (package_caption_text original_content),
             variant_caption = package_caption_text original_content,
             variant_hashtags = get_or [] (opt_hashtags optimized_content),
             variant_viral_score =
               (case opt_viral_score optimized_content of Some score \<Rightarrow> overall score | None \<Rightarrow> 50),
             variant_confidence = 8 / 10,
             variant_content_angle = get_or [] (pkg_content_angle original_content),
             test_hypothesis = ''Original optimized version''\<rparr>;
          variants = [variant_a];
          variants =
            (if content_video_script content \<noteq> None then
               (case get_or [] (opt_hook_variations optimized_content) of
                  [] \<Rightarrow> variants
                | hook # others \<Rightarrow>
                    variants @
                    [variant_a\<lparr>variant_id := ''B'', variant_title := hook,
                               test_hypothesis := ''Alternative hook variation'',
                               variant_viral_score := min 100 (variant_viral_score variant_a + 5)\<rparr>])
             else variants);
          variants =
            (if length variants < 3 then
               (let the_cta = content_cta content;
                    ctas = (case the_cta of None \<Rightarrow> [] | Some c \<Rightarrow> get_or [] (cta_variations c));
                    recommended = (case the_cta of None \<Rightarrow> [] | Some c \<Rightarrow> get_or [] (cta_recommended c))
                in case map snd ctas of
                     [] \<Rightarrow> variants
                   | first_cta # other_ctas \<Rightarrow>
                       variants @
                       [variant_a\<lparr>variant_id := ''C'',
                                  variant_caption :=
                                    replace recommended
                                      (case other_ctas of [] \<Rightarrow> first_cta | second_cta # rest \<Rightarrow> second_cta)
                                      (variant_caption variant_a),
                                  test_hypothesis := ''Alternative CTA''\<rparr>])
             else variants)
      in variants)"

text \<open>The CTA texts a package offers: the values of \<open>content.cta.variations\<close>.\<close>

definition cta_alternatives :: "content_package \<Rightarrow> string list" where
  "cta_alternatives original_content =
     (case content_cta (get_or empty_content (pkg_content original_content)) of
        None \<Rightarrow> []
      | Some c \<Rightarrow> map snd (get_or [] (cta_variations c)))"

text \<open>The winner of a platform: \<open>max(variants, key=lambda v: v.get("viral_score", 0))\<close>.\<close>

definition select_winner :: "variant list \<Rightarrow> variant option" where
  "select_winner variants =
     (case variants of [] \<Rightarrow> None | v # vs \<Rightarrow> Some (py_max_from variant_viral_score v vs))"

record generation_metadata =
  meta_research_date :: "string option"
  meta_trending_topics :: "string list"
  meta_cost_estimate :: rat

record content_item =
  item_id :: string
  item_user_id :: string
  item_webapp_id :: string
  item_platform :: string
  item_type :: string
  item_status :: string
  item_title :: string
  item_caption :: string
  item_hashtags :: "string list"
  item_media_urls :: "string list"
  item_viral_score :: int
  item_confidence_score :: rat
  item_content_angle :: content_angle
  item_ab_test_id :: "string option"
  item_variant_id :: string
  item_is_variant :: bool
  item_generation_metadata :: generation_metadata

record ContentWorkflowState =
  user_id :: string
  webapp_id :: string
  webapp :: webapp_data
  user_api_keys :: "string \<rightharpoonup> string"
  state_user_plan :: string
  platforms :: "string list"
  research :: research_results
  content_packages :: "(string \<times> content_package) list"
  media_assets :: "(string \<times> (string \<times> MediaAsset) list) list"
  optimized_content :: "(string \<times> optimized) list"
  viral_scores :: "(string \<times> ViralScoreResult) list"
  ab_test_variants :: "(string \<times> variant list) list"
  final_content :: "content_item list"
  current_stage :: WorkflowStage
  errors :: "string list"
  cost_estimate :: rat
  actual_cost :: rat

text \<open>
  What a run takes from outside: the research agent and the creative agent (either may
  raise), the providers' web services, the process environment, the clock (the hour, and
  the time stamp written into identifiers) and the rendering of a dictionary as text.
\<close>

record environment =
  research_webapp :: "webapp_data \<Rightarrow> error + research_results"
  generate_content_package :: "research_results \<Rightarrow> webapp_data \<Rightarrow> string \<Rightarrow> error + content_package"
  env_http :: http_env
  env_environ :: "string \<rightharpoonup> string"
  env_hour :: int
  env_now :: string
  env_render :: "content \<Rightarrow> string"

text \<open>\<open>str(e)\<close> of an exception; a \<open>KeyError\<close> shows its key between quotes.\<close>

definition str_error :: "error \<Rightarrow> string" where
  "str_error e =
     (case e of
        KeyError m \<Rightarrow> [CHR 0x27] @ m @ [CHR 0x27]
      | TypeError m \<Rightarrow> m
      | AttributeError m \<Rightarrow> m
      | ProviderError m \<Rightarrow> m)"

definition webapp_name :: "webapp_data \<Rightarrow> string" where
  "webapp_name w = get_or ''Your Product'' (wa_name w)"

definition get_fallback_content_angles :: "webapp_data \<Rightarrow> content_angle list" where
  "get_fallback_content_angles w =
     [[(''title'', PStr (''How '' @ webapp_name w @ '' Saves You Time'')),
       (''hook'', PStr ''Stop wasting time on manual tasks...''),
       (''platforms'', PList [''youtube'', ''tiktok'', ''instagram'']),
       (''format'', PStr ''tutorial''),
       (''key_message'', PStr (webapp_name w @ '' automates your workflow'')),
       (''cta'', PStr ''Try it free'')],
      [(''title'', PStr (''Before vs After with '' @ webapp_name w)),
       (''hook'', PStr ''This is what changed everything...''),
       (''platforms'', PList [''tiktok'', ''instagram'', ''facebook'']),
       (''format'', PStr ''transformation''),
       (''key_message'', PStr ''See real results''),
       (''cta'', PStr ''Start now'')]]"

definition research_node :: "environment \<Rightarrow> ContentWorkflowState \<Rightarrow> ContentWorkflowState" where
  "research_node env state =
     (case research_webapp env (webapp state) of
        Inr results \<Rightarrow> state\<lparr>research := results, current_stage := RESEARCH\<rparr>
      | Inl e \<Rightarrow>
          state\<lparr>errors := [''Research failed: '' @ str_error e],
                research := \<lparr>research_date = None, trending_topics = [], trending_hashtags = [],
                              trending_categories = [],
                              content_angles = get_fallback_content_angles (webapp state)\<rparr>\<rparr>)"

text \<open>
  The body of the creative loop for one platform: the package is stored under the
  platform, or the failure is appended to the error list.
\<close>

definition creative_step ::
  "environment \<Rightarrow> ContentWorkflowState \<Rightarrow> (string \<times> content_package) list \<times> string list \<Rightarrow> string
     \<Rightarrow> (string \<times> content_package) list \<times> string list" where
  "creative_step env state acc platform =
     (case acc of (packages, errs) \<Rightarrow>
        (case generate_content_package env (research state) (webapp state) platform of
           Inr package \<Rightarrow> (AList.update platform package packages, errs)
         | Inl e \<Rightarrow> (packages, errs @ [''Creative failed for '' @ platform @ '': '' @ str_error e])))"

definition creative_node :: "environment \<Rightarrow> ContentWorkflowState \<Rightarrow> ContentWorkflowState" where
  "creative_node env state =
     (case foldl (creative_step env state) ([], errors state) (platforms state) of
        (packages, errs) \<Rightarrow>
          state\<lparr>errors := errs, content_packages := packages, current_stage := CREATIVE\<rparr>)"

text \<open>
  The body of the media loop for one stored package.  The estimate is added to the running
  cost before the assets are generated.  The loop that tracks the actual cost adds the
  cost of assets that are dictionaries; the assets are \<open>MediaAsset\<close> objects, so it adds
  nothing.
\<close>

definition media_step ::
  "environment \<Rightarrow> MediaAgentV2
     \<Rightarrow> (string \<times> (string \<times> MediaAsset) list) list \<times> rat \<times> string list
     \<Rightarrow> string \<times> content_package
     \<Rightarrow> (string \<times> (string \<times> MediaAsset) list) list \<times> rat \<times> string list" where
  "media_step env agent acc entry =
     (case (acc, entry) of ((assets_by_platform, total_cost, errs), (platform, package)) \<Rightarrow>
        (let total_cost = total_cost + cost_total (estimate_cost agent package)
         in case generate_content_media agent (env_http env) (env_now env) package platform of
              Inr assets \<Rightarrow> (AList.update platform assets assets_by_platform, total_cost, errs)
            | Inl e \<Rightarrow>
                (assets_by_platform, total_cost,
                 errs @ [''Media failed for '' @ platform @ '': '' @ str_error e])))"

definition media_node :: "environment \<Rightarrow> ContentWorkflowState \<Rightarrow> ContentWorkflowState" where
  "media_node env state =
     (let agent = init_agent (user_api_keys state) (env_environ env) (state_user_plan state)
      in case foldl (media_step env agent) ([], 0, errors state) (content_packages state) of
           (assets_by_platform, total_cost, errs) \<Rightarrow>
             state\<lparr>errors := errs, media_assets := assets_by_platform,
                   cost_estimate := total_cost, current_stage := MEDIA\<rparr>)"

definition optimize_step ::
  "environment \<Rightarrow> ContentWorkflowState
     \<Rightarrow> (string \<times> optimized) list \<times> (string \<times> ViralScoreResult) list \<times> string list
     \<Rightarrow> string \<times> content_package
     \<Rightarrow> (string \<times> optimized) list \<times> (string \<times> ViralScoreResult) list \<times> string list" where
  "optimize_step env state acc entry =
     (case (acc, entry) of ((optimized_by_platform, scores, errs), (platform, package)) \<Rightarrow>
        (case optimize_content (env_render env) (env_hour env) (research state) package platform
                (webapp state) of
           Inr opt \<Rightarrow>
             (case opt_viral_score opt of
                Some score \<Rightarrow>
                  (AList.update platform opt optimized_by_platform,
                   AList.update platform score scores, errs)
              | None \<Rightarrow>
                  (AList.update platform opt optimized_by_platform, scores,
                   errs @ [''Optimization failed for '' @ platform @ '': '' @
                           str_error (KeyError ''viral_score'')]))
         | Inl e \<Rightarrow>
             (optimized_by_platform, scores,
              errs @ [''Optimization failed for '' @ platform @ '': '' @ str_error e])))"

definition optimize_node :: "environment \<Rightarrow> ContentWorkflowState \<Rightarrow> ContentWorkflowState" where
  "optimize_node env state =
     (case foldl (optimize_step env state) ([], [], errors state) (content_packages state) of
        (optimized_by_platform, scores, errs) \<Rightarrow>
          state\<lparr>errors := errs, optimized_content := optimized_by_platform,
                viral_scores := scores, current_stage := OPTIMIZE\<rparr>)"

text \<open>
  The A/B loop runs over the target platforms, not over the stored packages: a platform
  without a package gets its variants from the empty dictionaries.
\<close>

definition ab_test_step ::
  "ContentWorkflowState \<Rightarrow> (string \<times> variant list) list \<Rightarrow> string \<Rightarrow> (string \<times> variant list) list" where
  "ab_test_step state variants_by_platform platform =
     AList.update platform
       (generate_ab_variants platform
          (get_or empty_package (map_of (content_packages state) platform))
          (get_or empty_optimized (map_of (optimized_content state) platform)))
       variants_by_platform"

definition ab_test_node :: "ContentWorkflowState \<Rightarrow> ContentWorkflowState" where
  "ab_test_node state =
     state\<lparr>ab_test_variants := foldl (ab_test_step state) [] (platforms state),
           current_stage := AB_TEST\<rparr>"

definition determine_content_type :: "string \<Rightarrow> string" where
  "determine_content_type platform =
     (if contains ''shorts'' platform \<or> contains ''reels'' platform \<or> platform = ''tiktok''
      then ''video''
      else if platform \<in> set [''instagram'', ''facebook''] then ''image''
      else ''text'')"

definition extract_media_urls ::
  "string \<Rightarrow> (string \<times> (string \<times> MediaAsset) list) list \<Rightarrow> string list" where
  "extract_media_urls platform assets_by_platform =
     (let platform_assets = get_or [] (map_of assets_by_platform platform)
      in concat (map (\<lambda>(asset_type, asset).
                        case asset_url asset of
                          Some url \<Rightarrow> if url \<noteq> [] then [url] else []
                        | None \<Rightarrow> [])
                   platform_assets))"

text \<open>
  The topics written into the metadata, \<open>[t["topic"] for t in topics[:5]]\<close>: an entry
  without a topic raises a \<open>KeyError\<close>.
\<close>

fun topic_names :: "string option list \<Rightarrow> error + string list" where
  "topic_names [] = Inr []"
| "topic_names (None # ts) = Inl (KeyError ''topic'')"
| "topic_names (Some t # ts) =
     (case topic_names ts of Inl e \<Rightarrow> Inl e | Inr names \<Rightarrow> Inr (t # names))"

definition finalize_item ::
  "environment \<Rightarrow> ContentWorkflowState \<Rightarrow> string \<Rightarrow> variant \<Rightarrow> error + content_item" where
  "finalize_item env state platform best_variant =
     (case topic_names (take 5 (trending_topics (research state))) of
        Inl e \<Rightarrow> Inl e
      | Inr topics \<Rightarrow>
          Inr \<lparr>item_id = ''content_'' @ platform @ ''_'' @ env_now env,
               item_user_id = user_id state,
               item_webapp_id = webapp_id state,
               item_platform = platform,
               item_type = determine_content_type platform,
               item_status = ''pending'',
               item_title = variant_title best_variant,
               item_caption = variant_caption best_variant,
               item_hashtags = variant_hashtags best_variant,
               item_media_urls = extract_media_urls platform (media_assets state),
               item_viral_score = variant_viral_score best_variant,
               item_confidence_score = variant_confidence best_variant,
               item_content_angle = variant_content_angle best_variant,
               item_ab_test_id = None,
               item_variant_id = variant_id best_variant,
               item_is_variant = True,
               item_generation_metadata =
                 \<lparr>meta_research_date = research_date (research state),
                  meta_trending_topics = topics,
                  meta_cost_estimate = cost_estimate state\<rparr>\<rparr>)"

definition finalize_step ::
  "environment \<Rightarrow> ContentWorkflowState \<Rightarrow> content_item list \<times> string list \<Rightarrow> string
     \<Rightarrow> content_item list \<times> string list" where
  "finalize_step env state acc platform =
     (case acc of (items, errs) \<Rightarrow>
        (case select_winner (get_or [] (map_of (ab_test_variants state) platform)) of
           None \<Rightarrow> (items, errs)
         | Some best_variant \<Rightarrow>
             (case finalize_item env state platform best_variant of
                Inr item \<Rightarrow> (items @ [item], errs)
              | Inl e \<Rightarrow>
                  (items, errs @ [''Finalize failed for '' @ platform @ '': '' @ str_error e]))))"

definition finalize_node :: "environment \<Rightarrow> ContentWorkflowState \<Rightarrow> ContentWorkflowState" where
  "finalize_node env state =
     (case foldl (finalize_step env state) ([], errors state) (platforms state) of
        (items, errs) \<Rightarrow>
          state\<lparr>errors := errs, final_content := items, current_stage := COMPLETE\<rparr>)"

record run_result =
  success :: bool
  result_content :: "content_item list"
  result_errors :: "string list"
  result_cost_estimate :: rat
  stages_completed :: WorkflowStage
  result_viral_scores :: "(string \<times> ViralScoreResult) list"

definition initial_state ::
  "string \<Rightarrow> string \<Rightarrow> webapp_data \<Rightarrow> string list \<Rightarrow> (string \<rightharpoonup> string) \<Rightarrow> string
     \<Rightarrow> ContentWorkflowState" where
  "initial_state uid wid wdata target_platforms keys plan =
     \<lparr>user_id = uid, webapp_id = wid, webapp = wdata, user_api_keys = keys,
      state_user_plan = plan, platforms = target_platforms,
      research = \<lparr>research_date = None, trending_topics = [], trending_hashtags = [],
                   trending_categories = [], content_angles = []\<rparr>,
      content_packages = [], media_assets = [], optimized_content = [], viral_scores = [],
      ab_test_variants = [], final_content = [], current_stage = RESEARCH, errors = [],
      cost_estimate = 0, actual_cost = 0\<rparr>"

text \<open>
  The state schema declares \<open>errors\<close> as \<open>Annotated[List[str], operator.add]\<close> and every
  other field without a reducer.  When a node returns, the graph stores the returned
  value of a field without reducer, and for \<open>errors\<close> the stored list followed by the
  returned list.  Every handler returns the whole state, so every field is written after
  every node.
\<close>

definition apply_update :: "ContentWorkflowState \<Rightarrow> ContentWorkflowState \<Rightarrow> ContentWorkflowState" where
  "apply_update stored returned = returned\<lparr>errors := errors stored @ errors returned\<rparr>"

definition run_node ::
  "(ContentWorkflowState \<Rightarrow> ContentWorkflowState) \<Rightarrow> ContentWorkflowState \<Rightarrow> ContentWorkflowState" where
  "run_node handler state = apply_update state (handler state)"

text \<open>
  The compiled graph is the chain research, creative, media, optimize, ab\_test, finalize;
  invoking it runs the nodes in this order, each handler on the state stored after the
  previous node.  The input of \<open>run\<close> has an empty error list, which the reducer leaves
  as it is.  The handlers are total on this data model, so the failure branch of \<open>run\<close>,
  taken when the graph itself raises, has no counterpart here.
\<close>

definition workflow_invoke :: "environment \<Rightarrow> ContentWorkflowState \<Rightarrow> ContentWorkflowState" where
  "workflow_invoke env state =
     run_node (finalize_node env)
       (run_node ab_test_node
          (run_node (optimize_node env)
             (run_node (media_node env)
                (run_node (creative_node env)
                   (run_node (research_node env) state)))))"

definition run ::
  "environment \<Rightarrow> string \<Rightarrow> string \<Rightarrow> webapp_data \<Rightarrow> string list \<Rightarrow> (string \<rightharpoonup> string) \<Rightarrow> string
     \<Rightarrow> run_result" where
  "run env uid wid wdata target_platforms keys plan =
     (let result = workflow_invoke env (initial_state uid wid wdata target_platforms keys plan)
      in \<lparr>success = True, result_content = final_content result,
          result_errors = errors result, result_cost_estimate = cost_estimate result,
          stages_completed = current_stage result, result_viral_scores = viral_scores result\<rparr>)"

section \<open>Concrete inputs\<close>

text \<open>A product, a research snapshot and two content packages on which the results are run.\<close>

definition flowly :: webapp_data where
  "flowly = \<lparr>wa_id = Some ''w1'', wa_name = Some ''Flowly'', wa_category = Some ''SaaS''\<rparr>"

definition snapshot :: research_results where
  "snapshot = \<lparr>research_date = Some ''2026-01-05'', trending_topics = [Some ''Remote work tools''],
                trending_hashtags = [''#AI''], trending_categories = [''SaaS''],
                content_angles = []\<rparr>"

definition text_package :: content_package where
  "text_package =
     \<lparr>pkg_content_angle = Some [(''title'', PStr ''Before vs After''), (''format'', PStr ''transformation'')],
      pkg_content = Some
        \<lparr>content_caption = Some \<lparr>caption_text = Some ''Flowly is amazing. Try Flowly free today''\<rparr>,
         content_video_script = None,
         content_image_prompts = Some \<lparr>primary_prompt = Some ''a clean dashboard''\<rparr>,
         content_cta = Some \<lparr>cta_variations = Some [(''primary'', ''Try Flowly free'')],
                             cta_recommended = Some ''Try Flowly free''\<rparr>\<rparr>\<rparr>"

definition video_package :: content_package where
  "video_package =
     \<lparr>pkg_content_angle = Some [(''format'', PStr ''pov'')],
      pkg_content = Some
        \<lparr>content_caption = Some \<lparr>caption_text = Some ''Stop the struggle now''\<rparr>,
         content_video_script = Some \<lparr>script_title = Some ''Flowly in 30 seconds'',
                                      script_hook = Some ''POV: the secret nobody told you'',
                                      script_scenes = [''Meet Flowly'', ''sync'']\<rparr>,
         content_image_prompts = None,
         content_cta = Some \<lparr>cta_variations = Some [(''primary'', ''Try Flowly free''),
                                                     (''secondary'', ''Start your free trial'')],
                             cta_recommended = Some ''Try Flowly free''\<rparr>\<rparr>\<rparr>"

definition three_keys :: "string \<rightharpoonup> string" where
  "three_keys = [''OPENAI_API_KEY'' \<mapsto> ''sk-1'', ''HUGGINGFACE_TOKEN'' \<mapsto> ''hf-1'',
                 ''FAL_AI_KEY'' \<mapsto> ''fal-1'']"

definition openai_only :: "string \<rightharpoonup> string" where
  "openai_only = [''OPENAI_API_KEY'' \<mapsto> ''sk-1'']"

text \<open>Credentials for the video and audio providers whose calls never return an asset.\<close>

definition stub_keys :: "string \<rightharpoonup> string" where
  "stub_keys = [''HEYGEN_API_KEY'' \<mapsto> ''hg-1'', ''REPLICATE_API_TOKEN'' \<mapsto> ''r8-1'',
                ''COQUI_API_KEY'' \<mapsto> ''cq-1'', ''PLAYHT_API_KEY'' \<mapsto> ''ph-1'']"

definition failing_http :: http_env where
  "failing_http name = Inl (ProviderError ''503'')"

definition working_http :: http_env where
  "working_http name = Inr (''https://cdn.example/'' @ name)"

text \<open>
  An environment whose creative agent raises for \<open>youtube\<close> and returns the text package
  for every other platform; no credential is set in the process environment.
\<close>

definition youtube_fails :: environment where
  "youtube_fails =
     \<lparr>research_webapp = (\<lambda>w. Inr snapshot),
      generate_content_package =
        (\<lambda>r w platform. if platform = ''youtube'' then Inl (ProviderError ''creative agent down'')
                        else Inr text_package),
      env_http = failing_http, env_environ = Map.empty, env_hour = 12, env_now = ''1767571200.0'',
      env_render = (\<lambda>c. ''Flowly is amazing. Try Flowly free today'')\<rparr>"

text \<open>The run for the platforms \<open>youtube\<close> and \<open>twitter\<close> of a free-plan user without keys.\<close>

definition youtube_run :: run_result where
  "youtube_run = run youtube_fails ''u1'' ''w1'' flowly [''youtube'', ''twitter''] Map.empty ''free''"

section \<open>Scoring engine: ranges of the scores\<close>

lemma score_hook_range: "0 \<le> score_hook hook platform \<and> score_hook hook platform \<le> 100"
  by (simp add: score_hook_def Let_def)

lemma add_triggers_lower: "0 \<le> bonus \<Longrightarrow> score \<le> add_triggers bonus triggers text score"
proof (induction triggers arbitrary: score)
  case Nil
  then show ?case by (simp add: add_triggers_def)
next
  case (Cons t ts)
  let ?s = "if contains t text then score + bonus else score"
  have "score \<le> ?s" using Cons.prems by simp
  also have "?s \<le> add_triggers bonus ts text ?s" by (rule Cons.IH [OF Cons.prems])
  also have "\<dots> = add_triggers bonus (t # ts) text score" by (simp add: add_triggers_def)
  finally show ?case .
qed

lemma score_emotional_impact_range:
  "50 \<le> score_emotional_impact text \<and> score_emotional_impact text \<le> 100"
proof -
  let ?l = "lower text"
  have "(50::int) \<le> add_triggers 5 positive_triggers ?l 50"
    by (rule add_triggers_lower) simp
  also have "\<dots> \<le> add_triggers 3 negative_triggers ?l (add_triggers 5 positive_triggers ?l 50)"
    by (rule add_triggers_lower) simp
  also have "\<dots> \<le> add_triggers 4 urgency_triggers ?l
      (add_triggers 3 negative_triggers ?l (add_triggers 5 positive_triggers ?l 50))"
    by (rule add_triggers_lower) simp
  finally show ?thesis
    by (simp add: score_emotional_impact_def Let_def)
qed

lemma score_shareability_range:
  "50 \<le> score_shareability pkg platform \<and> score_shareability pkg platform \<le> 90"
  by (simp add: score_shareability_def Let_def split: option.splits)

lemma score_timing_values: "score_timing hour platform \<in> {60, 75, 90}"
  by (simp add: score_timing_def Let_def)

lemma score_uniqueness_range:
  "score_uniqueness render pkg w = Inr u \<Longrightarrow> 60 \<le> u \<and> u \<le> 85"
  by (auto simp: score_uniqueness_def Let_def split: option.splits pyval.splits if_splits)

text \<open>The uniqueness score, and with it the whole viral score, is returned exactly when
  the product has a name.\<close>

lemma score_uniqueness_returns:
  "(\<exists>u. score_uniqueness render pkg w = Inr u) \<longleftrightarrow> wa_name w \<noteq> None"
  by (auto simp: score_uniqueness_def Let_def split: option.splits)

lemma calculate_viral_score_returns:
  "(\<exists>r. calculate_viral_score render hour td pkg platform w = Inr r) \<longleftrightarrow> wa_name w \<noteq> None"
proof -
  have "(\<exists>r. calculate_viral_score render hour td pkg platform w = Inr r) \<longleftrightarrow>
        (\<exists>u. score_uniqueness render pkg w = Inr u)"
    by (auto simp: calculate_viral_score_def Let_def split: sum.splits prod.splits)
  then show ?thesis by (simp add: score_uniqueness_returns)
qed

lemma score_trend_alignment_range:
  "50 \<le> score_trend_alignment td w \<and> score_trend_alignment td w \<le> 90"
  by (simp add: score_trend_alignment_def Let_def)

lemma py_int_range: "0 \<le> q \<Longrightarrow> q \<le> 100 \<Longrightarrow> 0 \<le> py_int q \<and> py_int q \<le> 100"
  by (simp add: py_int_def floor_le_iff le_floor_iff)

text \<open>
  C8.  Whatever the content package, the platform, the product, the trend data and the
  hour, the six sub-scores and the overall score of a returned viral score lie between 0
  and 100.
\<close>

theorem viral_scores_in_range:
  assumes "calculate_viral_score render hour td pkg platform w = Inr r"
  shows "(0 \<le> hook_strength r \<and> hook_strength r \<le> 100) \<and>
         (0 \<le> emotional_impact r \<and> emotional_impact r \<le> 100) \<and>
         (0 \<le> shareability r \<and> shareability r \<le> 100) \<and>
         (0 \<le> timing_score r \<and> timing_score r \<le> 100) \<and>
         (0 \<le> uniqueness r \<and> uniqueness r \<le> 100) \<and>
         (0 \<le> trend_alignment r \<and> trend_alignment r \<le> 100) \<and>
         (0 \<le> overall r \<and> overall r \<le> 100)"
proof -
  define content where "content = get_or empty_content (pkg_content pkg)"
  define h where "h = score_hook (case content_video_script content of
                    None \<Rightarrow> [] | Some vs \<Rightarrow> get_or [] (script_hook vs)) platform"
  define e where "e = score_emotional_impact (case content_caption content of
                    None \<Rightarrow> [] | Some c \<Rightarrow> get_or [] (caption_text c))"
  define s where "s = score_shareability pkg platform"
  define t where "t = score_timing hour platform"
  define tr where "tr = score_trend_alignment td w"
  obtain u where u: "score_uniqueness render pkg w = Inr u"
    using assms by (auto simp: calculate_viral_score_def Let_def split: sum.splits)
  define total where "total = py_int (of_int h * (25 / 100) + of_int e * (20 / 100) +
                                  of_int s * (20 / 100) + of_int t * (10 / 100) +
                                  of_int u * (15 / 100) + of_int tr * (10 / 100))"
  have r: "hook_strength r = h" "emotional_impact r = e" "shareability r = s"
      "timing_score r = t" "uniqueness r = u" "trend_alignment r = tr" "overall r = total"
    using assms u
    by (auto simp: calculate_viral_score_def Let_def content_def h_def e_def s_def t_def tr_def
        total_def split: prod.splits)
  have bh: "0 \<le> h" "h \<le> 100" using score_hook_range by (simp_all add: h_def)
  have be: "0 \<le> e" "e \<le> 100"
    using score_emotional_impact_range [of "case content_caption content of
                    None \<Rightarrow> [] | Some c \<Rightarrow> get_or [] (caption_text c)"] by (simp_all add: e_def)
  have bs: "0 \<le> s" "s \<le> 100" using score_shareability_range [of pkg platform] by (simp_all add: s_def)
  have bt: "0 \<le> t" "t \<le> 100" using score_timing_values [of hour platform] by (auto simp: t_def)
  have bu: "0 \<le> u" "u \<le> 100" using score_uniqueness_range [OF u] by simp_all
  have btr: "0 \<le> tr" "tr \<le> 100" using score_trend_alignment_range [of td w] by (simp_all add: tr_def)
  let ?q = "(of_int h * (25 / 100) + of_int e * (20 / 100) +
                                  of_int s * (20 / 100) + of_int t * (10 / 100) +
                                  of_int u * (15 / 100) + of_int tr * (10 / 100) :: rat)"
  have lo: "0 \<le> ?q" using bh be bs bt bu btr by simp
  have "(of_int h :: rat) \<le> 100" "(of_int e :: rat) \<le> 100" "(of_int s :: rat) \<le> 100"
    "(of_int t :: rat) \<le> 100" "(of_int u :: rat) \<le> 100" "(of_int tr :: rat) \<le> 100"
    using bh be bs bt bu btr by simp_all
  then have hi: "?q \<le> 100" by simp
  have "0 \<le> total \<and> total \<le> 100" unfolding total_def by (rule py_int_range [OF lo hi])
  then show ?thesis using bh be bs bt bu btr by (simp add: r)
qed

lemma video_package_score:
  "calculate_viral_score (\<lambda>c. ''Flowly'') 12 snapshot video_package ''tiktok'' flowly =
     Inr \<lparr>overall = 82, hook_strength = 95, emotional_impact = 57, shareability = 85,
          timing_score = 90, uniqueness = 85, trend_alignment = 90, viral_probability = 69,
          estimated_reach = 82000,
          positive_factors = [''Strong hook that grabs attention immediately'',
            ''High shareability factor'', ''Optimal posting time'',
            ''Unique angle that stands out'', ''Well-aligned with current trends''],
          negative_factors = [],
          recommendations = [''Add more emotional language and relatable scenarios'']\<rparr>"
  by code_simp

theorem viral_scores_in_range_witness:
  "case calculate_viral_score (\<lambda>c. ''Flowly'') 12 snapshot video_package ''tiktok'' flowly of
     Inl e \<Rightarrow> False
   | Inr r \<Rightarrow>
       overall r = 82 \<and>
       (0 \<le> hook_strength r \<and> hook_strength r \<le> 100) \<and>
       (0 \<le> emotional_impact r \<and> emotional_impact r \<le> 100) \<and>
       (0 \<le> shareability r \<and> shareability r \<le> 100) \<and>
       (0 \<le> timing_score r \<and> timing_score r \<le> 100) \<and>
       (0 \<le> uniqueness r \<and> uniqueness r \<le> 100) \<and>
       (0 \<le> trend_alignment r \<and> trend_alignment r \<le> 100) \<and>
       (0 \<le> overall r \<and> overall r \<le> 100)"
  using viral_scores_in_range [OF video_package_score]
  by (simp add: video_package_score)

section \<open>Scoring engine: emotional impact\<close>

lemma add_triggers_cong:
  "\<forall>t\<in>set triggers. contains t x = contains t y \<Longrightarrow>
   add_triggers bonus triggers x score = add_triggers bonus triggers y score"
  unfolding add_triggers_def by (induction triggers arbitrary: score) simp_all

text \<open>Each trigger found in the text adds its bonus once, however often it occurs.\<close>

lemma add_triggers_count:
  "add_triggers bonus triggers x score =
     score + bonus * int (length (filter (\<lambda>t. contains t x) triggers))"
  unfolding add_triggers_def by (induction triggers arbitrary: score) (simp_all add: algebra_simps)

text \<open>
  C10.  The emotional-impact score depends only on which words of the three lexicons
  occur in the lowered text: two texts in which the same trigger words occur, however
  often, get the same score.
\<close>

theorem emotional_impact_presence_only:
  assumes "\<forall>t\<in>set (positive_triggers @ negative_triggers @ urgency_triggers).
             contains t (lower a) = contains t (lower b)"
  shows "score_emotional_impact a = score_emotional_impact b"
proof -
  have p: "\<And>s. add_triggers 5 positive_triggers (lower a) s = add_triggers 5 positive_triggers (lower b) s"
    using assms by (intro add_triggers_cong) simp
  have n: "\<And>s. add_triggers 3 negative_triggers (lower a) s = add_triggers 3 negative_triggers (lower b) s"
    using assms by (intro add_triggers_cong) simp
  have u: "\<And>s. add_triggers 4 urgency_triggers (lower a) s = add_triggers 4 urgency_triggers (lower b) s"
    using assms by (intro add_triggers_cong) simp
  show ?thesis by (simp add: score_emotional_impact_def Let_def p n u)
qed

lemma repeated_triggers_same_words:
  "\<forall>t\<in>set (positive_triggers @ negative_triggers @ urgency_triggers).
      contains t (lower ''Amazing, amazing: try it NOW, now!'') = contains t (lower ''amazing now'')"
  by code_simp

lemma single_triggers_score: "score_emotional_impact ''amazing now'' = 59"
  by code_simp

theorem emotional_impact_presence_only_witness:
  "score_emotional_impact ''Amazing, amazing: try it NOW, now!'' = 59"
  using emotional_impact_presence_only [OF repeated_triggers_same_words] single_triggers_score
  by simp

section \<open>Variant generator: the winner\<close>

lemma py_max_from_snoc:
  "py_max_from key best (xs @ [x]) =
     (let m = py_max_from key best xs in if key x > key m then x else m)"
  by (induction xs arbitrary: best) (simp_all add: Let_def)

lemma py_max_from_first:
  "\<exists>i < length (b # xs). py_max_from key b xs = (b # xs) ! i \<and>
      (\<forall>v\<in>set (b # xs). key v \<le> key ((b # xs) ! i)) \<and>
      (\<forall>j<i. key ((b # xs) ! j) < key ((b # xs) ! i))"
proof (induction xs rule: rev_induct)
  case Nil
  then show ?case by simp
next
  case (snoc x xs)
  then obtain i where i: "i < length (b # xs)" "py_max_from key b xs = (b # xs) ! i"
    "\<forall>v\<in>set (b # xs). key v \<le> key ((b # xs) ! i)"
    "\<forall>j<i. key ((b # xs) ! j) < key ((b # xs) ! i)"
    by blast
  let ?ys = "b # xs @ [x]"
  have nth_old: "\<And>j. j < length (b # xs) \<Longrightarrow> ?ys ! j = (b # xs) ! j"
    by (metis append_Cons nth_append)
  show ?case
  proof (cases "key x > key ((b # xs) ! i)")
    case True
    let ?k = "length (b # xs)"
    have k: "?ys ! ?k = x" by (metis append_Cons nth_append_length)
    have "py_max_from key b (xs @ [x]) = ?ys ! ?k"
      using True i(2) k by (simp add: py_max_from_snoc Let_def)
    moreover have "\<forall>v\<in>set ?ys. key v \<le> key (?ys ! ?k)"
      using True i(3) k by (auto simp: less_imp_le intro: order_trans less_imp_le)
    moreover have "\<forall>j<?k. key (?ys ! j) < key (?ys ! ?k)"
    proof (intro allI impI)
      fix j assume j: "j < ?k"
      then have "key ((b # xs) ! j) \<le> key ((b # xs) ! i)" using i(3) nth_mem by blast
      then show "key (?ys ! j) < key (?ys ! ?k)" using True k nth_old [OF j] by simp
    qed
    moreover have "?k < length ?ys" by simp
    ultimately show ?thesis by blast
  next
    case False
    have "py_max_from key b (xs @ [x]) = ?ys ! i"
      using False i(1,2) nth_old [of i] by (simp add: py_max_from_snoc Let_def)
    moreover have "\<forall>v\<in>set ?ys. key v \<le> key (?ys ! i)"
      using False i(1,3) nth_old [of i] by auto
    moreover have "\<forall>j<i. key (?ys ! j) < key (?ys ! i)"
      using i(1,4) nth_old by (metis (no_types, lifting) less_trans)
    moreover have "i < length ?ys" using i(1) by simp
    ultimately show ?thesis by blast
  qed
qed

text \<open>
  C9.  For a non-empty list of variants the selected winner is a variant of the list whose
  viral score is at least the score of every variant, and every variant declared before it
  has a strictly smaller score: among the variants with the highest score the one declared
  first wins.
\<close>

theorem select_winner_highest_first:
  assumes "variants \<noteq> []"
  shows "\<exists>i < length variants. select_winner variants = Some (variants ! i) \<and>
           (\<forall>v\<in>set variants. variant_viral_score v \<le> variant_viral_score (variants ! i)) \<and>
           (\<forall>j<i. variant_viral_score (variants ! j) < variant_viral_score (variants ! i))"
proof -
  obtain v vs where vs: "variants = v # vs" using assms by (cases variants) auto
  show ?thesis
    unfolding vs select_winner_def using py_max_from_first [of v vs variant_viral_score]
    by simp
qed

lemma tied_variants_winner:
  "select_winner (generate_ab_variants ''tiktok'' video_package
      \<lparr>opt_hashtags = Some [''#Flowly''], opt_hook_variations = Some [''Hot take:''],
       opt_viral_score = None\<rparr>) =
   Some \<lparr>variant_id = ''B'', variant_title = ''Hot take:'',
         variant_caption = ''Stop the struggle now'', variant_hashtags = [''#Flowly''],
         variant_viral_score = 55, variant_confidence = 8 / 10,
         variant_content_angle = [(''format'', PStr ''pov'')],
         test_hypothesis = ''Alternative hook variation''\<rparr>"
  by code_simp

theorem select_winner_highest_first_witness:
  "\<exists>i < length (generate_ab_variants ''tiktok'' video_package empty_optimized).
      select_winner (generate_ab_variants ''tiktok'' video_package empty_optimized) =
        Some (generate_ab_variants ''tiktok'' video_package empty_optimized ! i) \<and>
      (\<forall>v\<in>set (generate_ab_variants ''tiktok'' video_package empty_optimized).
          variant_viral_score v
            \<le> variant_viral_score (generate_ab_variants ''tiktok'' video_package empty_optimized ! i)) \<and>
      (\<forall>j<i. variant_viral_score (generate_ab_variants ''tiktok'' video_package empty_optimized ! j)
            < variant_viral_score (generate_ab_variants ''tiktok'' video_package empty_optimized ! i))"
proof -
  have h: "generate_ab_variants ''tiktok'' video_package empty_optimized \<noteq> []"
    by code_simp
  show ?thesis by (rule select_winner_highest_first [OF h])
qed

section \<open>Scoring engine: feedback\<close>

text \<open>
  C5 (as amended).  The feedback lists apply one threshold rule per sub-score, in the order
  hook, emotional, shareability, timing, uniqueness, trend: a sub-score at or above its
  threshold gives a positive factor, a sub-score below it gives the recommendation of that
  sub-score.  The threshold is 70 for hook, emotional, shareability, uniqueness and trend,
  and 80 for timing; a hook below 70 also gives the one negative factor.
\<close>

theorem generate_feedback_rules:
  "generate_feedback hook emotional shareable timing unique trend =
     ((if hook \<ge> 70 then [''Strong hook that grabs attention immediately''] else []) @
      (if emotional \<ge> 70 then [''Good emotional resonance with audience''] else []) @
      (if shareable \<ge> 70 then [''High shareability factor''] else []) @
      (if timing \<ge> 80 then [''Optimal posting time''] else []) @
      (if unique \<ge> 70 then [''Unique angle that stands out''] else []) @
      (if trend \<ge> 70 then [''Well-aligned with current trends''] else []),
      (if hook \<ge> 70 then [] else [''Hook could be more compelling'']),
      (if hook \<ge> 70 then [] else [''Start with a question, bold statement, or curiosity gap'']) @
      (if emotional \<ge> 70 then [] else [''Add more emotional language and relatable scenarios'']) @
      (if shareable \<ge> 70 then [] else [''Include a clear call-to-action and value proposition'']) @
      (if timing \<ge> 80 then [] else [''Consider posting during peak engagement hours'']) @
      (if unique \<ge> 70 then [] else [''Try a different content format or angle'']) @
      (if trend \<ge> 70 then [] else [''Incorporate trending topics or hashtags'']))"
  by (simp add: generate_feedback_def Let_def)

text \<open>
  A timing score of 75, the score of an hour next to an optimal one, is at least 70 and
  gives no positive factor but the recommendation.
\<close>

theorem feedback_timing_counterexample:
  "(70::int) \<le> 75 \<and>
   generate_feedback 70 70 70 75 70 70 =
     ([''Strong hook that grabs attention immediately'', ''Good emotional resonance with audience'',
       ''High shareability factor'', ''Unique angle that stands out'',
       ''Well-aligned with current trends''],
      [],
      [''Consider posting during peak engagement hours''])"
  by (simp add: generate_feedback_def Let_def)

section \<open>Variant generator: the CTA variant\<close>

text \<open>
  C6 (as amended).  The variant generator adds the CTA variant C exactly when the package
  offers at least one CTA variation; the first variant is the control A, and a variant C
  has the control's viral score.
\<close>

theorem variant_c_iff_cta:
  "(''C'' \<in> variant_id ` set (generate_ab_variants platform oc opt) \<longleftrightarrow> cta_alternatives oc \<noteq> []) \<and>
   (\<forall>v \<in> set (generate_ab_variants platform oc opt).
      variant_id v = ''C'' \<longrightarrow>
      variant_viral_score v = variant_viral_score (hd (generate_ab_variants platform oc opt))) \<and>
   variant_id (hd (generate_ab_variants platform oc opt)) = ''A''"
  by (auto simp: generate_ab_variants_def Let_def cta_alternatives_def split: list.splits option.splits)

lemma video_package_variants:
  "map (\<lambda>v. (variant_id v, variant_viral_score v))
     (generate_ab_variants ''tiktok'' video_package
        \<lparr>opt_hashtags = Some [''#Flowly''], opt_hook_variations = Some [''Hot take:''],
         opt_viral_score = None\<rparr>) =
   [(''A'', 50), (''B'', 55), (''C'', 50)]"
  by code_simp

lemma video_package_ctas: "length (cta_alternatives video_package) = 2"
  by code_simp

theorem variant_c_iff_cta_witness:
  "cta_alternatives video_package \<noteq> [] \<and>
   ''C'' \<in> variant_id ` set (generate_ab_variants ''tiktok'' video_package
        \<lparr>opt_hashtags = Some [''#Flowly''], opt_hook_variations = Some [''Hot take:''],
         opt_viral_score = None\<rparr>)"
proof -
  have h: "cta_alternatives video_package \<noteq> []" using video_package_ctas by auto
  show ?thesis
    using h variant_c_iff_cta [of "''tiktok''" video_package
        "\<lparr>opt_hashtags = Some [''#Flowly''], opt_hook_variations = Some [''Hot take:''],
         opt_viral_score = None\<rparr>"]
    by blast
qed

text \<open>A package with a single CTA variation gets the variant C.\<close>

theorem single_cta_counterexample:
  "length (cta_alternatives text_package) = 1 \<and>
   map variant_id (generate_ab_variants ''twitter'' text_package empty_optimized) = [''A'', ''C'']"
  by code_simp

section \<open>Provider registry: the candidate list\<close>












section \<open>Media router: fallback to the placeholder\<close>

lemma try_providers_none_iff: "try_providers call candidates = None \<longleftrightarrow> all_fail call candidates"
  by (induction candidates) (auto simp: all_fail_def split: sum.splits option.splits)

lemma try_providers_some:
  "try_providers call candidates = Some a \<Longrightarrow> \<exists>name\<in>set candidates. call name = Inr (Some a)"
  by (induction candidates) (auto split: sum.splits option.splits)

lemma provider_asset_fails:
  "isl (http name) \<Longrightarrow> provider_asset table kind http name prompt \<noteq> Inr (Some a)"
  by (auto simp: provider_asset_def isl_def split: option.splits)

lemma provider_asset_name:
  "provider_asset table kind http name prompt = Inr (Some a) \<Longrightarrow> asset_provider a = name"
  by (auto simp: provider_asset_def split: option.splits if_splits sum.splits)

text \<open>A provider whose request raises fails; so do the providers without a working call.\<close>

lemma image_call_fails: "isl (http name) \<Longrightarrow> image_call agent http prompt name \<noteq> Inr (Some a)"
  by (simp add: image_call_def provider_asset_fails)

lemma video_call_fails: "isl (http name) \<Longrightarrow> video_call agent http prompt name \<noteq> Inr (Some a)"
  using provider_asset_fails [of http "''runway''" "video_providers agent" VIDEO prompt a]
  by (auto simp: video_call_def)

lemma video_call_without_method:
  "name \<noteq> ''runway'' \<Longrightarrow> video_call agent http prompt name \<noteq> Inr (Some a)"
  by (simp add: video_call_def)

lemma audio_call_fails: "isl (http name) \<Longrightarrow> audio_call agent http spoken name \<noteq> Inr (Some a)"
  by (auto simp: audio_call_def isl_def split: option.splits)

lemma audio_call_returns_nothing:
  "name \<noteq> ''elevenlabs'' \<Longrightarrow> audio_call agent http spoken name = Inr None"
  by (simp add: audio_call_def)

lemma generate_image_all_fail:
  assumes "all_fail (image_call agent http prompt) (get_available_providers agent ''image''
             (if prefer_free \<and> user_plan agent = ''free'' then Some FREE else None))"
  shows "asset_status (generate_image agent http ts prompt platform w h prefer_free) = ''completed'' \<and>
         asset_provider (generate_image agent http ts prompt platform w h prefer_free) = ''placeholder'' \<and>
         asset_cost (generate_image agent http ts prompt platform w h prefer_free) = 0"
proof -
  let ?cs = "get_available_providers agent ''image''
             (if prefer_free \<and> user_plan agent = ''free'' then Some FREE else None)"
  have "try_providers (image_call agent http prompt) ?cs = None"
    using assms by (simp only: try_providers_none_iff)
  then show ?thesis
    by (cases prefer_free; cases "user_plan agent = ''free''")
       (simp_all add: generate_image_def Let_def image_placeholder_def split: prod.splits)
qed

lemma generate_video_all_fail:
  assumes "all_fail (video_call agent http prompt) (get_available_providers agent ''video'' None)"
  shows "asset_status (generate_video agent http ts prompt) = ''completed'' \<and>
         asset_provider (generate_video agent http ts prompt) = ''placeholder'' \<and>
         asset_cost (generate_video agent http ts prompt) = 0"
proof -
  have "try_providers (video_call agent http prompt) (get_available_providers agent ''video'' None) = None"
    using assms by (simp only: try_providers_none_iff)
  then show ?thesis
    by (simp add: generate_video_def Let_def video_placeholder_def)
qed

lemma generate_voiceover_all_fail:
  assumes "all_fail (audio_call agent http spoken) (get_available_providers agent ''audio'' None)"
  shows "asset_status (generate_voiceover agent http ts spoken) = ''completed'' \<and>
         asset_provider (generate_voiceover agent http ts spoken) = ''none'' \<and>
         asset_cost (generate_voiceover agent http ts spoken) = 0 \<and>
         asset_url (generate_voiceover agent http ts spoken) = None"
proof -
  have "try_providers (audio_call agent http spoken) (get_available_providers agent ''audio'' None) = None"
    using assms by (simp only: try_providers_none_iff)
  then show ?thesis
    by (simp add: generate_voiceover_def Let_def audio_placeholder_def)
qed

lemma no_credentials_no_candidates:
  "get_available_providers (init_agent Map.empty Map.empty plan) media_type priority = []"
  by (simp add: get_available_providers_def init_agent_def get_key_def available_in_def truthy_def)

text \<open>
  C3 (as amended).  The three generators return an asset on every path.  When the
  candidate list is empty or every candidate fails, in that its call raises or returns
  nothing, the image and the video asset have status completed, provider placeholder and
  cost 0; the audio asset has status completed, provider none, cost 0 and no locator.
  With no credential at all, every asset generated for a content package is such an asset.
\<close>

theorem media_fallback:
  "(all_fail (image_call agent http prompt) (get_available_providers agent ''image''
       (if prefer_free \<and> user_plan agent = ''free'' then Some FREE else None)) \<longrightarrow>
      asset_status (generate_image agent http ts prompt platform w h prefer_free) = ''completed'' \<and>
      asset_provider (generate_image agent http ts prompt platform w h prefer_free) = ''placeholder'' \<and>
      asset_cost (generate_image agent http ts prompt platform w h prefer_free) = 0) \<and>
   (all_fail (video_call agent http prompt) (get_available_providers agent ''video'' None) \<longrightarrow>
      asset_status (generate_video agent http ts prompt) = ''completed'' \<and>
      asset_provider (generate_video agent http ts prompt) = ''placeholder'' \<and>
      asset_cost (generate_video agent http ts prompt) = 0) \<and>
   (all_fail (audio_call agent http spoken) (get_available_providers agent ''audio'' None) \<longrightarrow>
      asset_status (generate_voiceover agent http ts spoken) = ''completed'' \<and>
      asset_provider (generate_voiceover agent http ts spoken) = ''none'' \<and>
      asset_cost (generate_voiceover agent http ts spoken) = 0 \<and>
      asset_url (generate_voiceover agent http ts spoken) = None) \<and>
   (\<forall>assets. generate_content_media (init_agent Map.empty Map.empty plan) http ts package platform
        = Inr assets \<longrightarrow>
      (\<forall>(kind, asset) \<in> set assets.
         asset_status asset = ''completed'' \<and> asset_cost asset = 0 \<and>
         asset_provider asset = (if kind = ''audio'' then ''none'' else ''placeholder'')))"
proof (intro conjI impI allI)
  fix assets
  assume g: "generate_content_media (init_agent Map.empty Map.empty plan) http ts package platform
        = Inr assets"
  let ?agent = "init_agent Map.empty Map.empty plan"
  have e: "\<And>call mt pr. all_fail call (get_available_providers ?agent mt pr)"
    by (simp add: no_credentials_no_candidates all_fail_def)
  note i = generate_image_all_fail [OF e] and v = generate_video_all_fail [OF e]
    and a = generate_voiceover_all_fail [OF e]
  show "\<forall>(kind, asset) \<in> set assets.
         asset_status asset = ''completed'' \<and> asset_cost asset = 0 \<and>
         asset_provider asset = (if kind = ''audio'' then ''none'' else ''placeholder'')"
    using g i v a
    by (auto simp: generate_content_media_def Let_def split: option.splits if_splits)
qed (simp_all add: generate_image_all_fail generate_video_all_fail generate_voiceover_all_fail)

text \<open>
  Three keys and services that refuse every request: the image candidates all raise.
  Keys for \<open>heygen\<close>, \<open>replicate\<close>, \<open>coqui\<close> and \<open>playht\<close> and services that answer:
  the video candidates raise for want of their methods and the audio candidates return
  nothing.
\<close>

lemma failing_image_candidates:
  "all_fail (image_call (init_agent three_keys Map.empty ''pro'') failing_http ''a clean dashboard'')
     (get_available_providers (init_agent three_keys Map.empty ''pro'') ''image''
       (if True \<and> user_plan (init_agent three_keys Map.empty ''pro'') = ''free'' then Some FREE else None))
   \<and> get_available_providers (init_agent three_keys Map.empty ''pro'') ''image''
       (if True \<and> user_plan (init_agent three_keys Map.empty ''pro'') = ''free'' then Some FREE else None)
       = [''huggingface'', ''fal'', ''openai'']"
  by code_simp

lemma stub_video_candidates:
  "all_fail (video_call (init_agent stub_keys Map.empty ''pro'') working_http ''Short promotional video'')
     (get_available_providers (init_agent stub_keys Map.empty ''pro'') ''video'' None)
   \<and> get_available_providers (init_agent stub_keys Map.empty ''pro'') ''video'' None
       = [''replicate_video'', ''heygen'']"
  by code_simp

lemma stub_audio_candidates:
  "all_fail (audio_call (init_agent stub_keys Map.empty ''pro'') working_http ''Meet Flowly'')
     (get_available_providers (init_agent stub_keys Map.empty ''pro'') ''audio'' None)
   \<and> get_available_providers (init_agent stub_keys Map.empty ''pro'') ''audio'' None
       = [''coqui'', ''playht'']"
  by code_simp

lemma no_credentials_media:
  "generate_content_media (init_agent Map.empty Map.empty ''free'') failing_http ''1767571200.0''
     video_package ''tiktok'' =
   Inr [(''video'', video_placeholder ''vid_1767571200.0''
           ''Short promotional video: Flowly in 30 seconds'' ''Placeholder - no API keys''),
        (''audio'', audio_placeholder ''audio_1767571200.0'' ''Meet Flowly''
           ''No API keys available'')]"
  by code_simp

theorem media_fallback_witness:
  "asset_provider (generate_image (init_agent three_keys Map.empty ''pro'') failing_http
      ''1767571200.0'' ''a clean dashboard'' ''instagram'' 1024 1024 True) = ''placeholder'' \<and>
   asset_provider (generate_video (init_agent stub_keys Map.empty ''pro'') working_http
      ''1767571200.0'' ''Short promotional video'') = ''placeholder'' \<and>
   asset_provider (generate_voiceover (init_agent stub_keys Map.empty ''pro'') working_http
      ''1767571200.0'' ''Meet Flowly'') = ''none'' \<and>
   asset_provider (video_placeholder ''vid_1767571200.0''
      ''Short promotional video: Flowly in 30 seconds'' ''Placeholder - no API keys'')
     = ''placeholder'' \<and>
   asset_provider (audio_placeholder ''audio_1767571200.0'' ''Meet Flowly''
      ''No API keys available'') = ''none'' \<and>
   asset_cost (audio_placeholder ''audio_1767571200.0'' ''Meet Flowly''
      ''No API keys available'') = 0"
proof -
  have image:
    "asset_provider (generate_image (init_agent three_keys Map.empty ''pro'') failing_http
        ''1767571200.0'' ''a clean dashboard'' ''instagram'' 1024 1024 True) = ''placeholder''"
    using failing_image_candidates
      media_fallback [where http = failing_http and agent = "init_agent three_keys Map.empty ''pro''"
        and prefer_free = True and ts = "''1767571200.0''" and prompt = "''a clean dashboard''"
        and platform = "''instagram''" and w = 1024 and h = 1024]
    by blast
  have video_audio:
    "asset_provider (generate_video (init_agent stub_keys Map.empty ''pro'') working_http
        ''1767571200.0'' ''Short promotional video'') = ''placeholder'' \<and>
     asset_provider (generate_voiceover (init_agent stub_keys Map.empty ''pro'') working_http
        ''1767571200.0'' ''Meet Flowly'') = ''none''"
    using stub_video_candidates stub_audio_candidates
      media_fallback [where http = working_http and agent = "init_agent stub_keys Map.empty ''pro''"
        and ts = "''1767571200.0''" and prompt = "''Short promotional video''"
        and spoken = "''Meet Flowly''"]
    by blast
  have generated:
    "\<forall>(kind, asset) \<in> set [(''video'', video_placeholder ''vid_1767571200.0''
                                ''Short promotional video: Flowly in 30 seconds''
                                ''Placeholder - no API keys''),
                            (''audio'', audio_placeholder ''audio_1767571200.0'' ''Meet Flowly''
                                ''No API keys available'')].
      asset_status asset = ''completed'' \<and> asset_cost asset = 0 \<and>
      asset_provider asset = (if kind = ''audio'' then ''none'' else ''placeholder'')"
    using no_credentials_media
      media_fallback [where http = failing_http and ts = "''1767571200.0''"
        and plan = "''free''" and package = video_package and platform = "''tiktok''"]
    by blast
  show ?thesis using image video_audio generated by simp
qed

text \<open>With no credential the voice-over asset names the provider \<open>none\<close>.\<close>

theorem voiceover_provider_counterexample:
  "get_available_providers (init_agent Map.empty Map.empty ''free'') ''audio'' None = [] \<and>
   asset_status (generate_voiceover (init_agent Map.empty Map.empty ''free'') failing_http
      ''1767571200.0'' ''Meet Flowly'') = ''completed'' \<and>
   asset_provider (generate_voiceover (init_agent Map.empty Map.empty ''free'') failing_http
      ''1767571200.0'' ''Meet Flowly'') = ''none''"
  by code_simp

section \<open>Media router: candidates of a free plan\<close>

lemma free_candidates_tier:
  "set (get_available_providers (init_agent keys environ plan) ''image'' (Some FREE))
     \<subseteq> {''huggingface'', ''siliconflow''}"
  by (auto simp: get_available_providers_def init_agent_def available_in_def Let_def split: if_splits)

lemma generate_image_provider:
  "asset_provider (generate_image agent http ts prompt platform w h prefer_free) = ''placeholder'' \<or>
   asset_provider (generate_image agent http ts prompt platform w h prefer_free) \<in>
     set (get_available_providers agent ''image''
            (if prefer_free \<and> user_plan agent = ''free'' then Some FREE else None))"
proof -
  let ?cs = "get_available_providers agent ''image''
            (if prefer_free \<and> user_plan agent = ''free'' then Some FREE else None)"
  show ?thesis
  proof (cases "try_providers (image_call agent http prompt) ?cs")
    case None
    then show ?thesis
      by (cases prefer_free; cases "user_plan agent = ''free''")
         (simp_all add: generate_image_def Let_def image_placeholder_def split: prod.splits)
  next
    case (Some a)
    then obtain name where n: "name \<in> set ?cs" "image_call agent http prompt name = Inr (Some a)"
      using try_providers_some by blast
    then have "asset_provider a = name"
      by (auto simp: image_call_def dest: provider_asset_name split: if_splits)
    then have "asset_provider a \<in> set ?cs" using n(1) by simp
    moreover have "?cs \<noteq> []" using n(1) by auto
    ultimately show ?thesis using Some
      by (cases prefer_free; cases "user_plan agent = ''free''")
         (simp_all add: generate_image_def Let_def split: prod.splits)
  qed
qed

text \<open>
  C4 (as amended).  For an image requested by a free-plan user with the preference for free
  providers, the candidates are the free-tier providers whose credential is present, and no
  other tier is considered: when there is no such provider the placeholder is returned,
  and otherwise the asset comes from one of these candidates or is the placeholder.
\<close>

theorem free_plan_image_free_tier_only:
  "(get_available_providers (init_agent keys environ ''free'') ''image'' (Some FREE) = [] \<longrightarrow>
      asset_provider (generate_image (init_agent keys environ ''free'') http ts prompt platform w h True)
        = ''placeholder'') \<and>
   asset_provider (generate_image (init_agent keys environ ''free'') http ts prompt platform w h True)
     \<in> {''placeholder''} \<union>
        set (get_available_providers (init_agent keys environ ''free'') ''image'' (Some FREE)) \<and>
   set (get_available_providers (init_agent keys environ ''free'') ''image'' (Some FREE))
     \<subseteq> {''huggingface'', ''siliconflow''}"
proof -
  let ?agent = "init_agent keys environ ''free''"
  have plan: "user_plan ?agent = ''free''" by (simp add: init_agent_def Let_def)
  have p: "asset_provider (generate_image ?agent http ts prompt platform w h True) = ''placeholder'' \<or>
     asset_provider (generate_image ?agent http ts prompt platform w h True) \<in>
       set (get_available_providers ?agent ''image'' (Some FREE))"
    using generate_image_provider [of ?agent http ts prompt platform w h True] plan by simp
  show ?thesis using p free_candidates_tier [of keys environ "''free''"] by auto
qed

lemma openai_only_free_candidates:
  "get_available_providers (init_agent openai_only Map.empty ''free'') ''image'' (Some FREE) = []"
  by code_simp

theorem free_plan_image_free_tier_only_witness:
  "get_available_providers (init_agent openai_only Map.empty ''free'') ''image'' (Some FREE) = [] \<and>
   asset_provider (generate_image (init_agent openai_only Map.empty ''free'') failing_http
      ''1767571200.0'' ''a clean dashboard'' ''instagram'' 1024 1024 True) = ''placeholder''"
  using openai_only_free_candidates
    free_plan_image_free_tier_only [of openai_only Map.empty failing_http "''1767571200.0''"
      "''a clean dashboard''" "''instagram''" 1024 1024]
  by blast

text \<open>
  A free-plan user whose only credential is for a premium provider: the list over all
  tiers is not empty and its provider would answer, yet the placeholder is returned.
\<close>

theorem premium_key_free_plan_counterexample:
  "get_available_providers (init_agent openai_only Map.empty ''free'') ''image'' (Some FREE) = [] \<and>
   get_available_providers (init_agent openai_only Map.empty ''free'') ''image'' None = [''openai''] \<and>
   working_http ''openai'' = Inr ''https://cdn.example/openai'' \<and>
   asset_provider (generate_image (init_agent openai_only Map.empty ''free'') working_http
      ''1767571200.0'' ''a clean dashboard'' ''instagram'' 1024 1024 True) = ''placeholder''"
  by code_simp


section \<open>Pipeline orchestrator: failures of the creative stage\<close>

lemma set_update_subset: "set (AList.update k v al) \<subseteq> insert (k, v) (set al)"
  by (induction al) auto

lemma creative_step_Inl:
  "generate_content_package env (research st) (webapp st) q = Inl e \<Longrightarrow>
   creative_step env st (pk, er) q = (pk, er @ [''Creative failed for '' @ q @ '': '' @ str_error e])"
  by (simp add: creative_step_def)

lemma creative_step_Inr:
  "generate_content_package env (research st) (webapp st) q = Inr new \<Longrightarrow>
   creative_step env st (pk, er) q = (AList.update q new pk, er)"
  by (simp add: creative_step_def)

lemma creative_fold_errors:
  "snd (foldl (creative_step env st) (pk, er) ps) =
     er @ concat (map (\<lambda>p. case generate_content_package env (research st) (webapp st) p of
                              Inl e \<Rightarrow> [''Creative failed for '' @ p @ '': '' @ str_error e]
                            | Inr pkg \<Rightarrow> []) ps)"
proof (induction ps arbitrary: pk er)
  case Nil
  then show ?case by simp
next
  case (Cons q ps)
  show ?case
  proof (cases "generate_content_package env (research st) (webapp st) q")
    case (Inl e)
    show ?thesis using Cons.IH by (simp add: creative_step_Inl [OF Inl] Inl)
  next
    case (Inr new)
    show ?thesis using Cons.IH by (simp add: creative_step_Inr [OF Inr] Inr)
  qed
qed

lemma creative_fold_packages:
  "(p, pkg) \<in> set (fst (foldl (creative_step env st) (pk, er) ps)) \<Longrightarrow>
   (p, pkg) \<in> set pk \<or>
   (p \<in> set ps \<and> generate_content_package env (research st) (webapp st) p = Inr pkg)"
proof (induction ps arbitrary: pk er)
  case Nil
  then show ?case by simp
next
  case (Cons q ps)
  show ?case
  proof (cases "generate_content_package env (research st) (webapp st) q")
    case (Inl e)
    then have "(p, pkg) \<in> set (fst (foldl (creative_step env st)
                 (pk, er @ [''Creative failed for '' @ q @ '': '' @ str_error e]) ps))"
      using Cons.prems by (simp add: creative_step_Inl [OF Inl])
    from Cons.IH [OF this] show ?thesis by auto
  next
    case (Inr new)
    then have "(p, pkg) \<in> set (fst (foldl (creative_step env st) (AList.update q new pk, er) ps))"
      using Cons.prems by (simp add: creative_step_Inr [OF Inr])
    from Cons.IH [OF this] show ?thesis
      using set_update_subset [of q new pk] Inr by auto
  qed
qed

lemma media_fold_errors:
  "\<forall>(p, pkg) \<in> set xs. \<not> isl (generate_content_media agent (env_http env) (env_now env) pkg p) \<Longrightarrow>
   snd (snd (foldl (media_step env agent) (assets, cost, er) xs)) = er"
proof (induction xs arbitrary: assets cost)
  case Nil
  then show ?case by simp
next
  case (Cons x xs)
  obtain p pkg where x: "x = (p, pkg)" by (cases x)
  obtain a where a: "generate_content_media agent (env_http env) (env_now env) pkg p = Inr a"
    using Cons.prems x by (cases "generate_content_media agent (env_http env) (env_now env) pkg p") auto
  have rest: "\<forall>(p, pkg) \<in> set xs. \<not> isl (generate_content_media agent (env_http env) (env_now env) pkg p)"
    using Cons.prems by simp
  have step: "media_step env agent (assets, cost, er) (p, pkg) =
      (AList.update p a assets, cost + cost_total (estimate_cost agent pkg), er)"
    by (simp add: media_step_def Let_def a)
  show ?case using Cons.IH [OF rest] by (simp add: x step)
qed

lemma optimize_content_score:
  "optimize_content render hour td pkg p w = Inr opt \<Longrightarrow> opt_viral_score opt \<noteq> None"
  by (auto simp: optimize_content_def Let_def split: if_splits sum.splits)

lemma optimize_fold_errors:
  "\<forall>(p, pkg) \<in> set xs. \<not> isl (optimize_content (env_render env) (env_hour env) (research st) pkg p
                                  (webapp st)) \<Longrightarrow>
   snd (snd (foldl (optimize_step env st) (opts, scores, er) xs)) = er"
proof (induction xs arbitrary: opts scores)
  case Nil
  then show ?case by simp
next
  case (Cons x xs)
  obtain p pkg where x: "x = (p, pkg)" by (cases x)
  obtain opt where o: "optimize_content (env_render env) (env_hour env) (research st) pkg p (webapp st)
      = Inr opt"
    using Cons.prems x
    by (cases "optimize_content (env_render env) (env_hour env) (research st) pkg p (webapp st)") auto
  obtain sc where sc: "opt_viral_score opt = Some sc" using optimize_content_score [OF o] by auto
  have rest: "\<forall>(p, pkg) \<in> set xs. \<not> isl (optimize_content (env_render env) (env_hour env)
       (research st) pkg p (webapp st))"
    using Cons.prems by simp
  have step: "optimize_step env st (opts, scores, er) (p, pkg) =
      (AList.update p opt opts, AList.update p sc scores, er)"
    by (simp add: optimize_step_def o sc)
  show ?case using Cons.IH [OF rest] by (simp add: x step)
qed

lemma ab_test_step_lookup:
  "map_of (ab_test_step st acc q) =
     (map_of acc)(q \<mapsto> generate_ab_variants q
                   (get_or empty_package (map_of (content_packages st) q))
                   (get_or empty_optimized (map_of (optimized_content st) q)))"
  by (simp add: ab_test_step_def update_conv')

lemma ab_test_fold_lookup:
  "map_of (foldl (ab_test_step st) acc ps) p =
     (if p \<in> set ps
      then Some (generate_ab_variants p
                   (get_or empty_package (map_of (content_packages st) p))
                   (get_or empty_optimized (map_of (optimized_content st) p)))
      else map_of acc p)"
proof (induction ps arbitrary: acc rule: rev_induct)
  case Nil
  then show ?case by simp
next
  case (snoc q ps)
  show ?case by (simp add: snoc.IH ab_test_step_lookup)
qed

lemma generate_ab_variants_nonempty: "generate_ab_variants p oc opt \<noteq> []"
  by (simp add: generate_ab_variants_def Let_def split: list.splits option.splits)

lemma select_winner_some: "vs \<noteq> [] \<Longrightarrow> \<exists>v. select_winner vs = Some v"
  by (cases vs) (simp_all add: select_winner_def)

lemma topic_names_ok: "None \<notin> set ts \<Longrightarrow> \<exists>names. topic_names ts = Inr names"
proof (induction ts)
  case Nil
  then show ?case by simp
next
  case (Cons t ts)
  then obtain names where "topic_names ts = Inr names" by auto
  moreover obtain s where "t = Some s" using Cons.prems by (cases t) auto
  ultimately show ?case by simp
qed

lemma finalize_item_platform:
  "finalize_item env st p v = Inr item \<Longrightarrow> item_platform item = p \<and> item_status item = ''pending''"
  by (auto simp: finalize_item_def split: sum.splits)

lemma finalize_item_ok:
  "None \<notin> set (take 5 (trending_topics (research st))) \<Longrightarrow> \<exists>item. finalize_item env st p v = Inr item"
  using topic_names_ok [of "take 5 (trending_topics (research st))"]
  by (auto simp: finalize_item_def)

lemma finalize_fold_all:
  assumes "None \<notin> set (take 5 (trending_topics (research st)))"
    and "\<forall>p\<in>set ps. get_or [] (map_of (ab_test_variants st) p) \<noteq> []"
  shows "map item_platform (fst (foldl (finalize_step env st) (items, er) ps)) =
           map item_platform items @ ps \<and>
         snd (foldl (finalize_step env st) (items, er) ps) = er"
  using assms(2)
proof (induction ps arbitrary: items)
  case Nil
  then show ?case by simp
next
  case (Cons p ps)
  obtain v where v: "select_winner (get_or [] (map_of (ab_test_variants st) p)) = Some v"
    using Cons.prems select_winner_some by force
  obtain item where item: "finalize_item env st p v = Inr item"
    using finalize_item_ok [OF assms(1)] by blast
  have rest: "\<forall>p\<in>set ps. get_or [] (map_of (ab_test_variants st) p) \<noteq> []"
    using Cons.prems by simp
  have step: "finalize_step env st (items, er) p = (items @ [item], er)"
    by (simp add: finalize_step_def v item)
  show ?case using Cons.IH [OF rest, of "items @ [item]"] finalize_item_platform [OF item]
    by (simp add: step)
qed

lemma finalize_step_cases:
  "finalize_step env st (items, er) p = (items, er) \<or>
   (\<exists>e. finalize_step env st (items, er) p = (items, er @ [e])) \<or>
   (\<exists>v item. finalize_item env st p v = Inr item \<and>
      finalize_step env st (items, er) p = (items @ [item], er))"
  by (auto simp: finalize_step_def split: option.splits sum.splits)

lemma finalize_step_status:
  assumes "\<forall>item\<in>set items. item_status item = ''pending''"
  shows "\<exists>items' er'. finalize_step env st (items, er) p = (items', er') \<and>
           (\<forall>item\<in>set items'. item_status item = ''pending'')"
proof -
  consider "finalize_step env st (items, er) p = (items, er)"
    | e where "finalize_step env st (items, er) p = (items, er @ [e])"
    | v item where "finalize_item env st p v = Inr item"
        "finalize_step env st (items, er) p = (items @ [item], er)"
    using finalize_step_cases [of env st items er p] by blast
  then show ?thesis
  proof cases
    case 1
    then show ?thesis using assms by blast
  next
    case 2
    then show ?thesis using assms by blast
  next
    case 3
    have "item_status item = ''pending''" using finalize_item_platform [OF 3(1)] by blast
    then have "\<forall>i\<in>set (items @ [item]). item_status i = ''pending''" using assms by auto
    then show ?thesis using 3(2) by blast
  qed
qed

lemma finalize_fold_status:
  "\<forall>item\<in>set items. item_status item = ''pending'' \<Longrightarrow>
   \<forall>item\<in>set (fst (foldl (finalize_step env st) (items, er) ps)). item_status item = ''pending''"
proof (induction ps arbitrary: items er)
  case Nil
  then show ?case by simp
next
  case (Cons p ps)
  obtain items' er' where step: "finalize_step env st (items, er) p = (items', er')"
    and ok: "\<forall>item\<in>set items'. item_status item = ''pending''"
    using finalize_step_status [OF Cons.prems] by blast
  have "foldl (finalize_step env st) (items, er) (p # ps) =
        foldl (finalize_step env st) (items', er') ps"
    by (simp only: foldl_Cons step)
  then show ?case using Cons.IH [OF ok, of er'] by (simp only:)
qed

lemma research_node_ok:
  "research_webapp env (webapp st) = Inr rs \<Longrightarrow>
   research_node env st = st\<lparr>research := rs, current_stage := RESEARCH\<rparr>"
  by (simp add: research_node_def)

lemma creative_node_eq:
  "creative_node env st =
     st\<lparr>errors := snd (foldl (creative_step env st) ([], errors st) (platforms st)),
        content_packages := fst (foldl (creative_step env st) ([], errors st) (platforms st)),
        current_stage := CREATIVE\<rparr>"
  by (simp add: creative_node_def split: prod.splits)

lemma media_node_errors:
  assumes "\<forall>(p, pkg) \<in> set (content_packages st).
             \<not> isl (generate_content_media
                      (init_agent (user_api_keys st) (env_environ env) (state_user_plan st))
                      (env_http env) (env_now env) pkg p)"
  shows "errors (media_node env st) = errors st"
proof -
  let ?agent = "init_agent (user_api_keys st) (env_environ env) (state_user_plan st)"
  obtain a c e where f: "foldl (media_step env ?agent) ([], 0, errors st) (content_packages st) = (a, c, e)"
    using prod_cases3 by blast
  have "e = errors st" using media_fold_errors [OF assms, of "[]" 0 "errors st"] f by simp
  then show ?thesis by (simp add: media_node_def Let_def f)
qed

lemma media_node_fields:
  "platforms (media_node env st) = platforms st \<and> research (media_node env st) = research st \<and>
   webapp (media_node env st) = webapp st \<and>
   content_packages (media_node env st) = content_packages st"
  by (simp add: media_node_def Let_def split: prod.splits)

lemma optimize_node_errors:
  assumes "\<forall>(p, pkg) \<in> set (content_packages st).
             \<not> isl (optimize_content (env_render env) (env_hour env) (research st) pkg p (webapp st))"
  shows "errors (optimize_node env st) = errors st"
proof -
  obtain a c e where f: "foldl (optimize_step env st) ([], [], errors st) (content_packages st) = (a, c, e)"
    using prod_cases3 by blast
  have "e = errors st" using optimize_fold_errors [OF assms, of "[]" "[]" "errors st"] f by simp
  then show ?thesis by (simp add: optimize_node_def f)
qed

lemma optimize_node_fields:
  "platforms (optimize_node env st) = platforms st \<and> research (optimize_node env st) = research st"
  by (simp add: optimize_node_def split: prod.splits)

lemma ab_test_node_fields:
  "platforms (ab_test_node st) = platforms st \<and> research (ab_test_node st) = research st \<and>
   errors (ab_test_node st) = errors st \<and>
   (\<forall>p\<in>set (platforms st). get_or [] (map_of (ab_test_variants (ab_test_node st)) p) \<noteq> [])"
  by (simp add: ab_test_node_def ab_test_fold_lookup get_or_def generate_ab_variants_nonempty)

lemma finalize_node_all:
  assumes "None \<notin> set (take 5 (trending_topics (research st)))"
    and "\<forall>p\<in>set (platforms st). get_or [] (map_of (ab_test_variants st) p) \<noteq> []"
  shows "map item_platform (final_content (finalize_node env st)) = platforms st \<and>
         errors (finalize_node env st) = errors st \<and>
         current_stage (finalize_node env st) = COMPLETE"
proof -
  obtain items er where f: "foldl (finalize_step env st) ([], errors st) (platforms st) = (items, er)"
    by force
  have "map item_platform items = platforms st \<and> er = errors st"
    using finalize_fold_all [OF assms, of env "[]" "errors st"] f by simp
  then show ?thesis by (simp add: finalize_node_def f)
qed

lemma run_node_fields:
  "errors (run_node handler st) = errors st @ errors (handler st)"
  "platforms (run_node handler st) = platforms (handler st)"
  "research (run_node handler st) = research (handler st)"
  "webapp (run_node handler st) = webapp (handler st)"
  "user_api_keys (run_node handler st) = user_api_keys (handler st)"
  "state_user_plan (run_node handler st) = state_user_plan (handler st)"
  "content_packages (run_node handler st) = content_packages (handler st)"
  "ab_test_variants (run_node handler st) = ab_test_variants (handler st)"
  "final_content (run_node handler st) = final_content (handler st)"
  "current_stage (run_node handler st) = current_stage (handler st)"
  by (simp_all add: run_node_def apply_update_def)

lemma sixteen_copies:
  "((((xs @ xs) @ (xs @ xs)) @ ((xs @ xs) @ (xs @ xs))) @
    (((xs @ xs) @ (xs @ xs)) @ ((xs @ xs) @ (xs @ xs)))) = concat (replicate 16 xs)"
  by (simp add: eval_nat_numeral)

text \<open>
  What a run returns when only the creative stage raises: the research agent answers,
  each of the first five trending topics names its topic, and for every platform whose
  content package the creative agent returns neither the media step nor the optimizer
  raises.  The run returns one content item for each entry of the platform list, in its
  order.  The creative handler appends one error for each entry it fails on; it and each
  of the four handlers after it return the list they received, which the reducer adds to
  the stored list, so the run returns these errors sixteen times over.
\<close>

lemma run_when_creative_fails:
  assumes research_ok: "research_webapp env wdata = Inr rs"
    and topics_ok: "None \<notin> set (take 5 (trending_topics rs))"
    and later_ok:
      "\<forall>p\<in>set target_platforms. \<forall>pkg. generate_content_package env rs wdata p = Inr pkg \<longrightarrow>
         \<not> isl (generate_content_media (init_agent keys (env_environ env) plan) (env_http env)
                  (env_now env) pkg p) \<and>
         \<not> isl (optimize_content (env_render env) (env_hour env) rs pkg p wdata)"
  shows "stages_completed (run env uid wid wdata target_platforms keys plan) = COMPLETE \<and>
         result_errors (run env uid wid wdata target_platforms keys plan) =
           concat (replicate 16
             (concat (map (\<lambda>p. case generate_content_package env rs wdata p of
                               Inl e \<Rightarrow> [''Creative failed for '' @ p @ '': '' @ str_error e]
                             | Inr pkg \<Rightarrow> []) target_platforms))) \<and>
         length (result_errors (run env uid wid wdata target_platforms keys plan)) =
           16 * length (filter (\<lambda>p. isl (generate_content_package env rs wdata p)) target_platforms) \<and>
         length (result_content (run env uid wid wdata target_platforms keys plan)) =
           length target_platforms \<and>
         map item_platform (result_content (run env uid wid wdata target_platforms keys plan)) =
           target_platforms"
proof -
  define s0 where "s0 = initial_state uid wid wdata target_platforms keys plan"
  define s1 where "s1 = run_node (research_node env) s0"
  define s2 where "s2 = run_node (creative_node env) s1"
  define s3 where "s3 = run_node (media_node env) s2"
  define s4 where "s4 = run_node (optimize_node env) s3"
  define s5 where "s5 = run_node ab_test_node s4"
  define s6 where "s6 = run_node (finalize_node env) s5"
  define msgs where "msgs = concat (map (\<lambda>p. case generate_content_package env rs wdata p of
                               Inl e \<Rightarrow> [''Creative failed for '' @ p @ '': '' @ str_error e]
                             | Inr pkg \<Rightarrow> []) target_platforms)"
  have s0: "webapp s0 = wdata" "platforms s0 = target_platforms" "errors s0 = []"
      "user_api_keys s0 = keys" "state_user_plan s0 = plan"
    by (simp_all add: s0_def initial_state_def)
  have r0: "research_node env s0 = s0\<lparr>research := rs, current_stage := RESEARCH\<rparr>"
    using research_ok s0(1) by (simp add: research_node_ok)
  have s1: "webapp s1 = wdata" "platforms s1 = target_platforms" "errors s1 = []"
      "user_api_keys s1 = keys" "state_user_plan s1 = plan" "research s1 = rs"
    using s0 by (simp_all add: s1_def run_node_fields r0)
  have c1: "creative_node env s1 =
      s1\<lparr>errors := snd (foldl (creative_step env s1) ([], []) target_platforms),
        content_packages := fst (foldl (creative_step env s1) ([], []) target_platforms),
        current_stage := CREATIVE\<rparr>"
    using creative_node_eq [of env s1] s1 by simp
  have c1_err: "errors (creative_node env s1) = msgs"
    using creative_fold_errors [of env s1 "[]" "[]" target_platforms] s1 by (simp add: c1 msgs_def)
  have s2_err: "errors s2 = msgs" by (simp add: s2_def run_node_fields s1 c1_err)
  have s2: "webapp s2 = wdata" "platforms s2 = target_platforms"
      "user_api_keys s2 = keys" "state_user_plan s2 = plan" "research s2 = rs"
      "content_packages s2 = fst (foldl (creative_step env s1) ([], []) target_platforms)"
    using s1 by (simp_all add: s2_def run_node_fields c1)
  have s2_pk: "\<forall>(p, pkg) \<in> set (content_packages s2).
                 p \<in> set target_platforms \<and> generate_content_package env rs wdata p = Inr pkg"
  proof -
    have "\<And>p pkg. (p, pkg) \<in> set (fst (foldl (creative_step env s1) ([], []) target_platforms)) \<Longrightarrow>
             p \<in> set target_platforms \<and> generate_content_package env rs wdata p = Inr pkg"
      using creative_fold_packages [of _ _ env s1 "[]" "[]" target_platforms] s1 by auto
    then show ?thesis by (auto simp: s2(6))
  qed
  have med: "\<forall>(p, pkg) \<in> set (content_packages s2).
             \<not> isl (generate_content_media
                      (init_agent (user_api_keys s2) (env_environ env) (state_user_plan s2))
                      (env_http env) (env_now env) pkg p)"
    using s2_pk later_ok s2 by auto
  have s3_err: "errors s3 = msgs @ msgs"
    using media_node_errors [OF med] s2_err by (simp add: s3_def run_node_fields)
  have s3: "platforms s3 = target_platforms" "research s3 = rs" "webapp s3 = wdata"
      "content_packages s3 = content_packages s2"
    using media_node_fields [of env s2] s2 by (simp_all add: s3_def run_node_fields)
  have opt: "\<forall>(p, pkg) \<in> set (content_packages s3).
             \<not> isl (optimize_content (env_render env) (env_hour env) (research s3) pkg p (webapp s3))"
    using s2_pk later_ok s3 by auto
  have s4_err: "errors s4 = (msgs @ msgs) @ (msgs @ msgs)"
    using optimize_node_errors [OF opt] s3_err by (simp add: s4_def run_node_fields)
  have s4: "platforms s4 = target_platforms" "research s4 = rs"
    using optimize_node_fields [of env s3] s3 by (simp_all add: s4_def run_node_fields)
  have s5_err: "errors s5 = ((msgs @ msgs) @ (msgs @ msgs)) @ ((msgs @ msgs) @ (msgs @ msgs))"
    using ab_test_node_fields [of s4] s4_err by (simp add: s5_def run_node_fields)
  have s5: "platforms s5 = target_platforms" "research s5 = rs"
      "\<forall>p\<in>set (platforms s5). get_or [] (map_of (ab_test_variants s5) p) \<noteq> []"
    using ab_test_node_fields [of s4] s4 by (simp_all add: s5_def run_node_fields)
  have t5: "None \<notin> set (take 5 (trending_topics (research s5)))" using topics_ok s5(2) by simp
  note fin = finalize_node_all [OF t5 s5(3), of env]
  have s6_err: "errors s6 = concat (replicate 16 msgs)"
    using fin s5_err by (simp only: s6_def run_node_fields sixteen_copies)
  have s6: "map item_platform (final_content s6) = target_platforms" "current_stage s6 = COMPLETE"
    using fin s5 by (simp_all add: s6_def run_node_fields)
  have run_eq: "run env uid wid wdata target_platforms keys plan =
      \<lparr>success = True, result_content = final_content s6, result_errors = errors s6,
       result_cost_estimate = cost_estimate s6, stages_completed = current_stage s6,
       result_viral_scores = viral_scores s6\<rparr>"
    by (simp add: run_def workflow_invoke_def Let_def s0_def s1_def s2_def s3_def s4_def s5_def s6_def)
  have len_msgs: "length msgs =
      length (filter (\<lambda>p. isl (generate_content_package env rs wdata p)) target_platforms)"
    unfolding msgs_def by (induction target_platforms) (auto split: sum.splits)
  have len_err: "length (errors s6) = 16 * length msgs"
    by (simp add: s6_err length_concat sum_list_replicate)
  have len_items: "length (final_content s6) = length target_platforms"
    using s6(1) by (metis length_map)
  show ?thesis using s6 s6_err len_err len_msgs len_items by (simp add: run_eq msgs_def)
qed

lemma youtube_fails_package:
  "generate_content_package youtube_fails snapshot flowly p =
     (if p = ''youtube'' then Inl (ProviderError ''creative agent down'') else Inr text_package)"
  by (simp add: youtube_fails_def)

lemma twitter_media_ok:
  "\<not> isl (generate_content_media (init_agent Map.empty (env_environ youtube_fails) ''free'')
            (env_http youtube_fails) (env_now youtube_fails) text_package ''twitter'')"
  by code_simp

lemma twitter_optimize_ok:
  "\<not> isl (optimize_content (env_render youtube_fails) (env_hour youtube_fails) snapshot
            text_package ''twitter'' flowly)"
  by code_simp

lemma run_when_creative_fails_youtube:
  "length (result_errors youtube_run) = 16 \<and> length (result_content youtube_run) = 2"
proof -
  have research_ok: "research_webapp youtube_fails flowly = Inr snapshot"
    by (simp add: youtube_fails_def)
  have topics_ok: "None \<notin> set (take 5 (trending_topics snapshot))"
    by (simp add: snapshot_def)
  have later_ok:
    "\<forall>p\<in>set [''youtube'', ''twitter'']. \<forall>pkg.
       generate_content_package youtube_fails snapshot flowly p = Inr pkg \<longrightarrow>
         \<not> isl (generate_content_media (init_agent Map.empty (env_environ youtube_fails) ''free'')
                  (env_http youtube_fails) (env_now youtube_fails) pkg p) \<and>
         \<not> isl (optimize_content (env_render youtube_fails) (env_hour youtube_fails) snapshot
                  pkg p flowly)"
    using twitter_media_ok twitter_optimize_ok by (simp add: youtube_fails_package)
  show ?thesis
    using run_when_creative_fails [OF research_ok topics_ok later_ok, of "''u1''" "''w1''"]
    by (simp add: youtube_run_def youtube_fails_package)
qed

text \<open>
  C1.  In the run for the platforms \<open>youtube\<close> and \<open>twitter\<close> the creative agent raises for
  \<open>youtube\<close> only, and no other step raises.  The run returns two content items, one per
  platform, and an error list of sixteen entries, each the one creative failure of
  \<open>youtube\<close>.
\<close>

theorem youtube_run_repeats_error:
  "result_errors youtube_run = replicate 16 ''Creative failed for youtube: creative agent down'' \<and>
   length (result_errors youtube_run) = 16 \<and>
   map item_platform (result_content youtube_run) = [''youtube'', ''twitter''] \<and>
   stages_completed youtube_run = COMPLETE"
  by code_simp

section \<open>Pipeline orchestrator: the finalized items\<close>

text \<open>
  C2 (as amended).  Every item of a run's result has the status pending: an item is queued
  for approval whether or not its title, its caption and its media locators are empty.
  The item has no field that marks it as degraded.
\<close>

theorem finalized_items_pending:
  "\<forall>item \<in> set (result_content (run env uid wid wdata target_platforms keys plan)).
     item_status item = ''pending''"
proof -
  define s5 where "s5 = run_node ab_test_node (run_node (optimize_node env)
      (run_node (media_node env) (run_node (creative_node env) (run_node (research_node env)
        (initial_state uid wid wdata target_platforms keys plan)))))"
  have "result_content (run env uid wid wdata target_platforms keys plan) =
        final_content (finalize_node env s5)"
    by (simp add: run_def workflow_invoke_def Let_def s5_def run_node_fields)
  also have "\<dots> = fst (foldl (finalize_step env s5) ([], errors s5) (platforms s5))"
    by (simp add: finalize_node_def split: prod.splits)
  finally have "result_content (run env uid wid wdata target_platforms keys plan) =
        fst (foldl (finalize_step env s5) ([], errors s5) (platforms s5))" .
  then show ?thesis
    using finalize_fold_status [of "[]" env s5 "errors s5" "platforms s5"] by simp
qed

lemma youtube_run_content:
  "result_content youtube_run =
     [\<lparr>item_id = ''content_youtube_1767571200.0'', item_user_id = ''u1'',
       item_webapp_id = ''w1'', item_platform = ''youtube'',
       item_type = ''text'', item_status = ''pending'', item_title = [],
       item_caption = [], item_hashtags = [], item_media_urls = [],
       item_viral_score = 50, item_confidence_score = 4 / 5,
       item_content_angle = [], item_ab_test_id = None,
       item_variant_id = ''A'', item_is_variant = True,
       item_generation_metadata =
         \<lparr>meta_research_date = Some ''2026-01-05'',
          meta_trending_topics = [''Remote work tools''], meta_cost_estimate = 0\<rparr>\<rparr>,
      \<lparr>item_id = ''content_twitter_1767571200.0'', item_user_id = ''u1'',
       item_webapp_id = ''w1'', item_platform = ''twitter'',
       item_type = ''text'', item_status = ''pending'',
       item_title = ''Flowly is amazing. Try Flowly free today'',
       item_caption = ''Flowly is amazing. Try Flowly free today'',
       item_hashtags = [''#Flowly''],
       item_media_urls =
         [''https://images.unsplash.com/photo-1551434678-e076c223a692?w=1600&h=900&fit=crop''],
       item_viral_score = 67, item_confidence_score = 4 / 5,
       item_content_angle =
         [(''title'', PStr ''Before vs After''), (''format'', PStr ''transformation'')],
       item_ab_test_id = None, item_variant_id = ''A'', item_is_variant = True,
       item_generation_metadata =
         \<lparr>meta_research_date = Some ''2026-01-05'',
          meta_trending_topics = [''Remote work tools''], meta_cost_estimate = 0\<rparr>\<rparr>]"
  by code_simp

theorem finalized_items_pending_witness:
  "result_content youtube_run \<noteq> [] \<and>
   item_status (hd (result_content youtube_run)) = ''pending'' \<and>
   item_status (last (result_content youtube_run)) = ''pending''"
proof -
  have ne: "result_content youtube_run \<noteq> []" by (simp add: youtube_run_content)
  then have "hd (result_content youtube_run) \<in> set (result_content youtube_run)"
    and "last (result_content youtube_run) \<in> set (result_content youtube_run)"
    by simp_all
  then show ?thesis
    using ne finalized_items_pending [of youtube_fails "''u1''" "''w1''" flowly
        "[''youtube'', ''twitter'']" Map.empty "''free''"]
    unfolding youtube_run_def by blast
qed

text \<open>
  The item of the platform whose creative step failed has an empty title, an empty caption
  and no media locator, and the same status as the populated item of the other platform.
\<close>

theorem empty_item_pending_counterexample:
  "item_platform (hd (result_content youtube_run)) = ''youtube'' \<and>
   item_title (hd (result_content youtube_run)) = [] \<and>
   item_caption (hd (result_content youtube_run)) = [] \<and>
   item_media_urls (hd (result_content youtube_run)) = [] \<and>
   item_status (hd (result_content youtube_run)) = ''pending'' \<and>
   item_platform (last (result_content youtube_run)) = ''twitter'' \<and>
   item_title (last (result_content youtube_run)) \<noteq> [] \<and>
   item_status (last (result_content youtube_run)) = ''pending''"
  by (simp add: youtube_run_content)
end
